theory Spec2Isabelle
  imports Complex_Main
begin

section \<open>Classical transport coefficients (plasmapy/physics/transport.py)\<close>

text \<open>
  Conventions of the embedding.
  \<^item> A Python float (and a dimensionless or SI-valued astropy quantity) is a \<^typ>\<open>real\<close>:
    the arithmetic is the exact one, units are the SI ones throughout, and the conversions
    \<^verbatim>\<open>.to(units.K)\<close>, \<^verbatim>\<open>.to(units.m**-3)\<close> are the identity.
  \<^item> Every \<^verbatim>\<open>raise\<close> is an \<open>Inl\<close> value of the type \<open>error\<close>. An operation whose floating
    point result is no finite real number (a division by zero, the logarithm of a number
    that is not positive, a fractional power of a negative number) ends the model with
    \<open>Not_finite\<close>.
  \<^item> Functions of other modules (the species database, the Debye length, the Hall parameter,
    the collision rates, the relativity check) and the physical constants are the fields of
    a record \<open>env\<close> that every function depending on them takes as its first argument.
\<close>

subsection \<open>Values and errors\<close>

text \<open>
  A charge state as the tables and the callers write it: a number, \<^verbatim>\<open>np.inf\<close>, or the
  string \<^verbatim>\<open>'arbitrary'\<close>.
\<close>

datatype zval = ZNum real | ZInf | ZArbitrary

text \<open>
  The exceptions of the module, with the data their messages are built from:
  \<^item> \<open>Z_not_available Z caller\<close>: PhysicsError "Z is not an available Z value in caller";
  \<^item> \<open>Unknown_coefficient c\<close>, \<open>Unknown_model m\<close>, \<open>Unknown_field f\<close>: PhysicsError
    "Unknown transport coefficient", "Unknown transport model", "Unknown field orientation";
  \<^item> \<open>Coulomb_log_below_1 name v\<close>: PhysicsError "name is v, less than 1";
  \<^item> \<open>Particles_not_pair\<close>, \<open>Mass_not_found p f\<close>, \<open>Charge_not_found p f\<close>, \<open>Negative_Z\<close>:
    ValueError;
  \<^item> \<open>Not_subscriptable\<close>, \<open>Bad_index\<close>, \<open>Not_a_number\<close>: TypeError (indexing the integer 1,
    indexing a list with nan, arithmetic on the string \<^verbatim>\<open>'arbitrary'\<close>);
  \<^item> \<open>Index_out_of_range\<close>: IndexError; \<open>Unknown_key k\<close>: KeyError;
  \<^item> \<open>External s\<close>: an exception raised by the function \<open>s\<close> of another module;
  \<^item> \<open>Not_finite\<close>: the floating point result is no finite real number.
\<close>

datatype error =
    Z_not_available zval string
  | Unknown_coefficient string
  | Unknown_model string
  | Unknown_field string
  | Coulomb_log_below_1 string real
  | Particles_not_pair
  | Mass_not_found string string
  | Charge_not_found string string
  | Negative_Z
  | Not_subscriptable
  | Bad_index
  | Index_out_of_range
  | Unknown_key string
  | Not_a_number
  | External string
  | Not_finite

datatype exception_class =
  PhysicsError | ValueError | TypeError | IndexError | KeyError | OtherError

fun class_of :: "error \<Rightarrow> exception_class" where
  "class_of (Z_not_available Z caller) = PhysicsError"
| "class_of (Unknown_coefficient c) = PhysicsError"
| "class_of (Unknown_model m) = PhysicsError"
| "class_of (Unknown_field f) = PhysicsError"
| "class_of (Coulomb_log_below_1 n v) = PhysicsError"
| "class_of Particles_not_pair = ValueError"
| "class_of (Mass_not_found p f) = ValueError"
| "class_of (Charge_not_found p f) = ValueError"
| "class_of Negative_Z = ValueError"
| "class_of Not_subscriptable = TypeError"
| "class_of Bad_index = TypeError"
| "class_of Index_out_of_range = IndexError"
| "class_of (Unknown_key k) = KeyError"
| "class_of Not_a_number = TypeError"
| "class_of (External s) = OtherError"
| "class_of Not_finite = OtherError"

subsection \<open>check_Z\<close>

text \<open>
  The first loop of \<^verbatim>\<open>check_Z\<close>: \<^verbatim>\<open>for idx, v in enumerate(allowed_Z): if v == 'arbitrary':
  arbitrary_Z_allowed = True; the_arbitrary_idx = idx\<close>. The index \<^verbatim>\<open>np.nan\<close> is \<open>None\<close>.
\<close>

fun arbitrary_loop :: "zval list \<Rightarrow> nat \<Rightarrow> bool \<times> nat option \<Rightarrow> bool \<times> nat option" where
  "arbitrary_loop [] idx st = st"
| "arbitrary_loop (allowed_Z_val # rest) idx st =
     arbitrary_loop rest (Suc idx)
       (if allowed_Z_val = ZArbitrary then (True, Some idx) else st)"

text \<open>
  The second loop: \<^verbatim>\<open>for idx, v in enumerate(allowed_Z): if Z == v: Z_idx = idx\<close>.
\<close>

fun match_loop :: "zval \<Rightarrow> zval list \<Rightarrow> nat \<Rightarrow> nat option \<Rightarrow> nat option" where
  "match_loop Z [] idx Z_idx = Z_idx"
| "match_loop Z (allowed_Z_val # rest) idx Z_idx =
     match_loop Z rest (Suc idx) (if Z = allowed_Z_val then Some idx else Z_idx)"

text \<open>
  \<^verbatim>\<open>check_Z(allowed_Z, Z)\<close>. The name of the calling function, which the source reads from
  the call stack for the message, is the argument \<open>caller\<close>.
\<close>

definition check_Z :: "string \<Rightarrow> zval list \<Rightarrow> zval \<Rightarrow> error + nat option" where
  "check_Z caller allowed_Z Z =
     (let (arbitrary_Z_allowed, the_arbitrary_idx) = arbitrary_loop allowed_Z 0 (False, None);
          Z_idx = match_loop Z allowed_Z 0 None
      in if Z_idx = None \<and> \<not> arbitrary_Z_allowed then Inl (Z_not_available Z caller)
         else if Z_idx = None then Inr the_arbitrary_idx
         else Inr Z_idx)"

subsection \<open>Results of the nondimensional evaluators\<close>

text \<open>
  What an evaluator returns: a float, a numpy array of floats, or \<^verbatim>\<open>None\<close> (the end of the
  function body is reached without a \<^verbatim>\<open>return\<close>).
\<close>

datatype val = Scalar real | Array "real list" | NoneVal

subsection \<open>Spitzer-Harm\<close>

definition get_spitzer_harm_coeffs :: "zval \<Rightarrow> error + (real \<times> real \<times> real \<times> real)" where
  "get_spitzer_harm_coeffs Z =
     (let allowed_Z = [ZNum 1, ZNum 2, ZNum 4, ZNum 16, ZInf] in
      case check_Z ''get_spitzer_harm_coeffs'' allowed_Z Z of
        Inl err \<Rightarrow> Inl err
      | Inr None \<Rightarrow> Inl Bad_index
      | Inr (Some Z_idx) \<Rightarrow>
          (let gamma_E = [0.5816, 0.6833, 0.7849, 0.9225, 1.0000];
               gamma_T = [0.2727, 0.4137, 0.5714, 0.8279, 1.0000];
               delta_E = [0.4652, 0.5787, 0.7043, 0.8870, 1.0000];
               delta_T = [0.2252, 0.3563, 0.5133, 0.7907, 1.0000]
           in Inr (gamma_E ! Z_idx, gamma_T ! Z_idx, delta_E ! Z_idx, delta_T ! Z_idx)))"

definition nondim_tc_e_spitzer :: "zval \<Rightarrow> error + val" where
  "nondim_tc_e_spitzer Z =
     (case get_spitzer_harm_coeffs Z of
        Inl err \<Rightarrow> Inl err
      | Inr (gamma_E, gamma_T, delta_E, delta_T) \<Rightarrow>
          Inr (Scalar ((64 / pi) * delta_T * (5 / 3 - (gamma_T * delta_E) / (delta_T * gamma_E)))))"

definition nondim_resist_spitzer :: "zval \<Rightarrow> error + val" where
  "nondim_resist_spitzer Z =
     (case get_spitzer_harm_coeffs Z of
        Inl err \<Rightarrow> Inl err
      | Inr (gamma_E, gamma_T, delta_E, delta_T) \<Rightarrow>
          Inr (Scalar ((3 * pi / 32) * (1 / gamma_E))))"

definition nondim_tec_spitzer :: "zval \<Rightarrow> error + val" where
  "nondim_tec_spitzer Z =
     (case get_spitzer_harm_coeffs Z of
        Inl err \<Rightarrow> Inl err
      | Inr (gamma_E, gamma_T, delta_E, delta_T) \<Rightarrow>
          Inr (Scalar (5 / 2 * (8 / 5 * (delta_E / gamma_E) - 1))))"

subsection \<open>Braginskii\<close>

text \<open>
  The tables of the three electron evaluators are local lists of the source functions; here
  each is a constant named after its function. The allowed Z values are the same list in the
  three functions.
\<close>

definition braginskii_allowed_Z :: "zval list" where
  "braginskii_allowed_Z = [ZNum 1, ZNum 2, ZNum 3, ZNum 4, ZInf]"

definition tc_e_delta_0 :: "real list" where
  "tc_e_delta_0 = [3.7703, 1.0465, 0.5814, 0.4106, 0.0961]"

definition tc_e_delta_1 :: "real list" where
  "tc_e_delta_1 = [14.79, 10.80, 9.618, 9.055, 7.482]"

definition tc_e_gamma_1_prime :: "real list" where
  "tc_e_gamma_1_prime = [4.664, 3.957, 3.721, 3.604, 3.25]"

definition tc_e_gamma_0_prime :: "real list" where
  "tc_e_gamma_0_prime = [11.92, 5.118, 3.525, 2.841, 1.20]"

definition tc_e_gamma_1_doubleprime :: "real list" where
  "tc_e_gamma_1_doubleprime = [2.500, 2.500, 2.500, 2.500, 2.500]"

definition tc_e_gamma_0_doubleprime :: "real list" where
  "tc_e_gamma_0_doubleprime = [21.67, 15.37, 13.53, 12.65, 10.23]"

definition nondim_tc_e_braginskii :: "real \<Rightarrow> zval \<Rightarrow> string \<Rightarrow> error + val" where
  "nondim_tc_e_braginskii hall Z field_orientation =
     (case check_Z ''nondim_tc_e_braginskii'' braginskii_allowed_Z Z of
        Inl err \<Rightarrow> Inl err
      | Inr None \<Rightarrow> Inl Bad_index
      | Inr (Some Z_idx) \<Rightarrow>
          (let gamma_0 = tc_e_gamma_0_prime ! Z_idx / tc_e_delta_0 ! Z_idx;
               Delta = hall ^ 4 + tc_e_delta_1 ! Z_idx * hall ^ 2 + tc_e_delta_0 ! Z_idx;
               kappa_par = gamma_0;
               kappa_perp = (tc_e_gamma_1_prime ! Z_idx * hall ^ 2 + tc_e_gamma_0_prime ! Z_idx) / Delta;
               kappa_cross = (tc_e_gamma_1_doubleprime ! Z_idx * hall ^ 3 +
                              tc_e_gamma_0_doubleprime ! Z_idx * hall) / Delta
           in if field_orientation = ''parallel'' \<or> field_orientation = ''par''
              then Inr (Scalar kappa_par)
              else if field_orientation = ''perpendicular'' \<or> field_orientation = ''perp''
              then Inr (Scalar kappa_perp)
              else if field_orientation = ''cross'' then Inr (Scalar kappa_cross)
              else if field_orientation = ''all''
              then Inr (Array [kappa_par, kappa_perp, kappa_cross])
              else Inr NoneVal))"

definition nondim_tc_i_braginskii :: "real \<Rightarrow> string \<Rightarrow> error + val" where
  "nondim_tc_i_braginskii hall field_orientation =
     (let kappa_par_coeff_0 = 3.906;
          kappa_par = kappa_par_coeff_0;
          kappa_perp_coeff_2 = 2.0;
          kappa_perp_coeff_0 = 2.645;
          delta_1 = 2.70;
          delta_0 = 0.677;
          Delta = hall ^ 4 + delta_1 * hall ^ 2 + delta_0;
          kappa_perp = (kappa_perp_coeff_2 * hall ^ 2 + kappa_perp_coeff_0) / Delta;
          kappa_cross_coeff_3 = 2.5;
          kappa_cross_coeff_1 = 4.65;
          kappa_cross = (kappa_cross_coeff_3 * hall ^ 3 + kappa_cross_coeff_1 * hall) / Delta
      in if field_orientation = ''parallel'' \<or> field_orientation = ''par''
         then Inr (Scalar kappa_par)
         else if field_orientation = ''perpendicular'' \<or> field_orientation = ''perp''
         then Inr (Scalar kappa_perp)
         else if field_orientation = ''cross'' then Inr (Scalar kappa_cross)
         else if field_orientation = ''all''
         then Inr (Array [kappa_par, kappa_perp, kappa_cross])
         else Inr NoneVal)"

text \<open>
  In \<^verbatim>\<open>nondim_visc_e_braginskii\<close> each local function computes \<open>Delta\<close> from its own
  argument; in \<^verbatim>\<open>nondim_visc_i_braginskii\<close> \<open>Delta\<close> is computed once, from \<open>hall\<close>, and
  the local functions use that value also when they are called with \<open>2 * hall\<close>.
\<close>

definition visc_e_braginskii_f_eta_2 :: "real \<Rightarrow> real" where
  "visc_e_braginskii_f_eta_2 hall =
     (let eta_doubleprime_2 = 2.05; eta_doubleprime_0 = 8.50; delta_1 = 13.8; delta_0 = 11.6;
          Delta = hall ^ 4 + delta_1 * hall ^ 2 + delta_0
      in (eta_doubleprime_2 * hall ^ 2 + eta_doubleprime_0) / Delta)"

definition visc_e_braginskii_f_eta_4 :: "real \<Rightarrow> real" where
  "visc_e_braginskii_f_eta_4 hall =
     (let eta_tripleprime_2 = 1.0; eta_tripleprime_0 = 7.91; delta_1 = 13.8; delta_0 = 11.6;
          Delta = hall ^ 4 + delta_1 * hall ^ 2 + delta_0
      in (eta_tripleprime_2 * hall ^ 3 + eta_tripleprime_0 * hall) / Delta)"

definition nondim_visc_e_braginskii :: "real \<Rightarrow> zval \<Rightarrow> error + val" where
  "nondim_visc_e_braginskii hall Z =
     (case check_Z ''nondim_visc_e_braginskii'' [ZNum 1] Z of
        Inl err \<Rightarrow> Inl err
      | Inr _ \<Rightarrow>
          (let eta_prime_0 = 0.733;
               eta_0_e = eta_prime_0;
               eta_2_e = visc_e_braginskii_f_eta_2 hall;
               eta_1_e = visc_e_braginskii_f_eta_2 (2 * hall);
               eta_4_e = visc_e_braginskii_f_eta_4 hall;
               eta_3_e = visc_e_braginskii_f_eta_4 (2 * hall)
           in Inr (Array [eta_0_e, eta_1_e, eta_2_e, eta_3_e, eta_4_e])))"

definition visc_i_braginskii_f_eta_2 :: "real \<Rightarrow> real \<Rightarrow> real" where
  "visc_i_braginskii_f_eta_2 Delta hall =
     (let eta_doubleprime_2 = 6 / 5; eta_doubleprime_0 = 2.23
      in (eta_doubleprime_2 * hall ^ 2 + eta_doubleprime_0) / Delta)"

definition visc_i_braginskii_f_eta_4 :: "real \<Rightarrow> real \<Rightarrow> real" where
  "visc_i_braginskii_f_eta_4 Delta hall =
     (let eta_tripleprime_2 = 1.0; eta_tripleprime_0 = 2.38
      in (eta_tripleprime_2 * hall ^ 3 + eta_tripleprime_0 * hall) / Delta)"

definition nondim_visc_i_braginskii :: "real \<Rightarrow> error + val" where
  "nondim_visc_i_braginskii hall =
     (let eta_prime_0 = 0.96;
          delta_1 = 4.03;
          delta_0 = 2.33;
          Delta = hall ^ 4 + delta_1 * hall ^ 2 + delta_0;
          eta_0_i = eta_prime_0;
          eta_2_i = visc_i_braginskii_f_eta_2 Delta hall;
          eta_1_i = visc_i_braginskii_f_eta_2 Delta (2 * hall);
          eta_4_i = visc_i_braginskii_f_eta_4 Delta hall;
          eta_3_i = visc_i_braginskii_f_eta_4 Delta (2 * hall)
      in Inr (Array [eta_0_i, eta_1_i, eta_2_i, eta_3_i, eta_4_i]))"

definition resist_delta_0 :: "real list" where
  "resist_delta_0 = [3.7703, 1.0465, 0.5814, 0.4106, 0.0961]"

definition resist_delta_1 :: "real list" where
  "resist_delta_1 = [14.79, 10.80, 9.618, 9.055, 7.482]"

definition resist_alpha_1_prime :: "real list" where
  "resist_alpha_1_prime = [6.416, 5.523, 5.226, 5.077, 4.63]"

definition resist_alpha_0_prime :: "real list" where
  "resist_alpha_0_prime = [1.837, 0.5956, 0.3515, 0.2566, 0.0678]"

definition resist_alpha_1_doubleprime :: "real list" where
  "resist_alpha_1_doubleprime = [1.704, 1.704, 1.704, 1.704, 1.704]"

definition resist_alpha_0_doubleprime :: "real list" where
  "resist_alpha_0_doubleprime = [0.7796, 0.3439, 0.2400, 0.1957, 0.0940]"

definition nondim_resist_braginskii :: "real \<Rightarrow> zval \<Rightarrow> string \<Rightarrow> error + val" where
  "nondim_resist_braginskii hall Z field_orientation =
     (case check_Z ''nondim_resist_braginskii'' braginskii_allowed_Z Z of
        Inl err \<Rightarrow> Inl err
      | Inr None \<Rightarrow> Inl Bad_index
      | Inr (Some Z_idx) \<Rightarrow>
          (let alpha_0 = 1 - resist_alpha_0_prime ! Z_idx / resist_delta_0 ! Z_idx;
               Delta = hall ^ 4 + resist_delta_1 ! Z_idx * hall ^ 2 + resist_delta_0 ! Z_idx;
               alpha_par = alpha_0;
               alpha_perp = (1 - (resist_alpha_1_prime ! Z_idx * hall ^ 2 +
                                  resist_alpha_0_prime ! Z_idx) / Delta);
               alpha_cross = (resist_alpha_1_doubleprime ! Z_idx * hall ^ 3 +
                              resist_alpha_0_doubleprime ! Z_idx * hall) / Delta
           in if field_orientation = ''parallel'' \<or> field_orientation = ''par''
              then Inr (Scalar alpha_par)
              else if field_orientation = ''perpendicular'' \<or> field_orientation = ''perp''
              then Inr (Scalar alpha_perp)
              else if field_orientation = ''cross'' then Inr (Scalar alpha_cross)
              else if field_orientation = ''all''
              then Inr (Array [alpha_par, alpha_perp, alpha_cross])
              else Inr NoneVal))"

definition tec_delta_0 :: "real list" where
  "tec_delta_0 = [3.7703, 1.0465, 0.5814, 0.4106, 0.0961]"

definition tec_delta_1 :: "real list" where
  "tec_delta_1 = [14.79, 10.80, 9.618, 9.055, 7.482]"

definition tec_beta_1_prime :: "real list" where
  "tec_beta_1_prime = [5.101, 4.450, 4.233, 4.124, 3.798]"

definition tec_beta_0_prime :: "real list" where
  "tec_beta_0_prime = [2.681, 0.9473, 0.5905, 0.4478, 0.1461]"

definition tec_beta_1_doubleprime :: "real list" where
  "tec_beta_1_doubleprime = [1.5, 1.5, 1.5, 1.5, 1.5]"

definition tec_beta_0_doubleprime :: "real list" where
  "tec_beta_0_doubleprime = [3.053, 1.784, 1.442, 1.285, 0.877]"

definition nondim_tec_braginskii :: "real \<Rightarrow> zval \<Rightarrow> string \<Rightarrow> error + val" where
  "nondim_tec_braginskii hall Z field_orientation =
     (case check_Z ''nondim_tec_braginskii'' braginskii_allowed_Z Z of
        Inl err \<Rightarrow> Inl err
      | Inr None \<Rightarrow> Inl Bad_index
      | Inr (Some Z_idx) \<Rightarrow>
          (let Delta = hall ^ 4 + tec_delta_1 ! Z_idx * hall ^ 2 + tec_delta_0 ! Z_idx;
               beta_0 = tec_beta_0_prime ! Z_idx / tec_delta_0 ! Z_idx;
               beta_par = beta_0;
               beta_perp = (tec_beta_1_prime ! Z_idx * hall ^ 2 + tec_beta_0_prime ! Z_idx) / Delta;
               beta_cross = (tec_beta_1_doubleprime ! Z_idx * hall ^ 3 +
                             tec_beta_0_doubleprime ! Z_idx * hall) / Delta
           in if field_orientation = ''parallel'' \<or> field_orientation = ''par''
              then Inr (Scalar beta_par)
              else if field_orientation = ''perpendicular'' \<or> field_orientation = ''perp''
              then Inr (Scalar beta_perp)
              else if field_orientation = ''cross'' then Inr (Scalar beta_cross)
              else if field_orientation = ''all''
              then Inr (Array [beta_par, beta_perp, beta_cross])
              else Inr NoneVal))"

subsection \<open>Ji-Held, electrons\<close>

text \<open>
  \<^verbatim>\<open>numerator / denominator\<close>: no finite result when the denominator is zero.
\<close>

definition py_div :: "real \<Rightarrow> real \<Rightarrow> real option" where
  "py_div numerator denominator =
     (if denominator = 0 then None else Some (numerator / denominator))"

text \<open>
  The electron evaluators of Ji and Held use Z as a number: the string \<^verbatim>\<open>'arbitrary'\<close>
  raises a TypeError in \<^verbatim>\<open>Z * hall\<close>, an infinite Z makes \<^verbatim>\<open>r\<close> infinite or nan, and a
  negative Z has no real fractional powers. For a negative Z the source computes with
  complex numbers and raises nothing (a component into which only integer powers of Z
  enter, such as the parallel one of \<^verbatim>\<open>nondim_tc_e_ji_held\<close>, is then still a real number);
  the model covers \<open>Z \<ge> 0\<close> and ends with \<open>Not_finite\<close> for every negative Z.
\<close>

definition number_Z :: "zval \<Rightarrow> error + real" where
  "number_Z Z = (case Z of
       ZArbitrary \<Rightarrow> Inl Not_a_number
     | ZInf \<Rightarrow> Inl Not_finite
     | ZNum z \<Rightarrow> if z < 0 then Inl Not_finite else Inr z)"

definition f_kappa_par_e :: "real \<Rightarrow> real option" where
  "f_kappa_par_e Z =
     (let numerator = 13.5 * Z ^ 2 + 54.4 * Z + 25.2;
          denominator = Z ^ 3 + 8.35 * Z ^ 2 + 15.2 * Z + 4.51
      in py_div numerator denominator)"

definition f_kappa_0 :: "real \<Rightarrow> real option" where
  "f_kappa_0 Z =
     (let numerator = 9.91 * Z ^ 3 + 75.3 * Z ^ 2 + 518 * Z + 333;
          denominator = 1000
      in py_div numerator denominator)"

definition f_kappa_1 :: "real \<Rightarrow> real option" where
  "f_kappa_1 Z =
     (let numerator = 0.211 * Z ^ 3 + 12.7 ^ 2 + 48.4 * Z + 6.45;
          denominator = Z + 57.1
      in py_div numerator denominator)"

definition f_kappa_2 :: "real \<Rightarrow> real option" where
  "f_kappa_2 Z =
     (let numerator = 0.932 * Z powr (7 / 3) + 0.135 * Z ^ 2 + 12.3 * Z + 8.77;
          denominator = Z + 4.84
      in py_div numerator denominator)"

definition f_kappa_3 :: "real \<Rightarrow> real option" where
  "f_kappa_3 Z =
     (let numerator = 0.246 * Z ^ 3 + 2.65 * Z ^ 2 - 92.8 * Z - 1.96;
          denominator = Z ^ 2 + 19.9 * Z + 35.3
      in py_div numerator denominator)"

definition f_kappa_4 :: "real \<Rightarrow> real option" where
  "f_kappa_4 Z =
     (let numerator = 2.76 * Z powr (5 / 3) - 0.836 * Z powr (2 / 3) - 0.0611;
          denominator = Z - 0.214
      in py_div numerator denominator)"

definition f_k_0 :: "real \<Rightarrow> real option" where
  "f_k_0 Z =
     (let numerator = 0.0396 * Z ^ 3 + 46.3 * Z + 176;
          denominator = 1000
      in py_div numerator denominator)"

definition f_k_1 :: "real \<Rightarrow> real option" where
  "f_k_1 Z =
     (let numerator = 15.4 * Z ^ 3 + 188 * Z ^ 2 + 240 * Z + 35.3;
          denominator = 1000 * Z + 397
      in py_div numerator denominator)"

definition f_k_2 :: "real \<Rightarrow> real option" where
  "f_k_2 Z =
     (let numerator = - 0.159 * Z ^ 2 - 12.5 * Z + 34.1;
          denominator = Z powr (2 / 3) + 0.741 * Z powr (1 / 3) + 31.0
      in py_div numerator denominator)"

definition f_k_3 :: "real \<Rightarrow> real option" where
  "f_k_3 Z =
     (let numerator = 0.431 * Z ^ 2 + 3.69 * Z + 0.0314;
          denominator = Z + 3.62
      in py_div numerator denominator)"

definition f_k_4 :: "real \<Rightarrow> real option" where
  "f_k_4 Z =
     (let numerator = 0.0258 * Z ^ 2 - 1.63 * Z + 0.711;
          denominator = Z powr (4 / 3) + 4.36 * Z powr (2 / 3) + 2.75
      in py_div numerator denominator)"

definition f_k_5 :: "real \<Rightarrow> real option" where
  "f_k_5 Z =
     (let numerator = Z ^ 3 + 11.9 * Z ^ 2 + 28.8 * Z + 9.07;
          denominator = 173 * Z + 133
      in py_div numerator denominator)"

text \<open>
  The local functions \<^verbatim>\<open>f_kappa_perp(Z_idx)\<close> and \<^verbatim>\<open>f_kappa_cross(Z_idx)\<close>, with the
  variables they read from the enclosing function as arguments.
\<close>

definition f_kappa_perp ::
  "real \<Rightarrow> real \<Rightarrow> real list \<Rightarrow> real list \<Rightarrow> real list \<Rightarrow> real list \<Rightarrow> real list \<Rightarrow> real list
     \<Rightarrow> nat \<Rightarrow> real option" where
  "f_kappa_perp Z r kappa_par_e kappa_0 kappa_1 kappa_2 kappa_3 kappa_4 Z_idx =
     (let numerator = (13 / 4 * Z + sqrt 2) * r + kappa_0 ! Z_idx * kappa_par_e ! Z_idx;
          denominator = r ^ 3 +
            kappa_4 ! Z_idx * r powr (7 / 3) +
            kappa_3 ! Z_idx * r ^ 2 +
            kappa_2 ! Z_idx * r powr (5 / 3) +
            kappa_1 ! Z_idx * r +
            kappa_0 ! Z_idx
      in py_div numerator denominator)"

definition f_kappa_cross ::
  "real \<Rightarrow> real list \<Rightarrow> real list \<Rightarrow> real list \<Rightarrow> real list \<Rightarrow> real list \<Rightarrow> real list
     \<Rightarrow> nat \<Rightarrow> real option" where
  "f_kappa_cross r k_0 k_1 k_2 k_3 k_4 k_5 Z_idx =
     (case py_div (k_0 ! Z_idx) (k_5 ! Z_idx) of
        None \<Rightarrow> None
      | Some q \<Rightarrow>
          (let numerator = r * (5 / 2 * r + q);
               denominator = r ^ 3 +
                 k_4 ! Z_idx * r powr (7 / 3) +
                 k_3 ! Z_idx * r ^ 2 +
                 k_2 ! Z_idx * r powr (5 / 3) +
                 k_1 ! Z_idx * r +
                 k_0 ! Z_idx
           in py_div numerator denominator))"

text \<open>
  \<^verbatim>\<open>nondim_tc_e_ji_held\<close>. The twelve lists are built, and so the twelve functions of Z are
  called, before the first \<^verbatim>\<open>return\<close>: \<open>those\<close> is \<open>None\<close> as soon as one call has no finite
  result.
\<close>

definition nondim_tc_e_ji_held :: "real \<Rightarrow> zval \<Rightarrow> string \<Rightarrow> error + val" where
  "nondim_tc_e_ji_held hall Zv field_orientation =
     (case check_Z ''nondim_tc_e_ji_held'' [ZNum 1, ZNum 2, ZArbitrary] Zv of
        Inl err \<Rightarrow> Inl err
      | Inr None \<Rightarrow> Inl Bad_index
      | Inr (Some Z_idx) \<Rightarrow>
     (case number_Z Zv of
        Inl err \<Rightarrow> Inl err
      | Inr Z \<Rightarrow>
     (let r = \<bar>Z * hall\<bar> in
      case those [f_kappa_par_e Z, f_kappa_0 Z, f_kappa_1 Z, f_kappa_2 Z, f_kappa_3 Z,
                  f_kappa_4 Z, f_k_0 Z, f_k_1 Z, f_k_2 Z, f_k_3 Z, f_k_4 Z, f_k_5 Z] of
        None \<Rightarrow> Inl Not_finite
      | Some fs \<Rightarrow>
     (let kappa_par_e = [3.204, 2.464, fs ! 0];
          kappa_0 = [0.936, 1.749, fs ! 1];
          kappa_1 = [1.166, 2.635, fs ! 2];
          kappa_2 = [5.310, 13.87, fs ! 3];
          kappa_3 = [- 1.635, - 2.212, fs ! 4];
          kappa_4 = [2.370, 4.129, fs ! 5];
          k_0 = [0.222, 0.269, fs ! 6];
          k_1 = [0.343, 0.580, fs ! 7];
          k_2 = [0.655, 0.252, fs ! 8];
          k_3 = [0.899, 1.626, fs ! 9];
          k_4 = [- 0.110, - 0.201, fs ! 10];
          k_5 = [0.166, 0.255, fs ! 11];
          kappa_par = kappa_par_e ! Z_idx
      in if field_orientation = ''parallel'' \<or> field_orientation = ''par''
         then Inr (Scalar (Z * kappa_par))
         else
     (case f_kappa_perp Z r kappa_par_e kappa_0 kappa_1 kappa_2 kappa_3 kappa_4 Z_idx of
        None \<Rightarrow> Inl Not_finite
      | Some kappa_perp \<Rightarrow>
         if field_orientation = ''perpendicular'' \<or> field_orientation = ''perp''
         then Inr (Scalar (Z * kappa_perp))
         else
     (case f_kappa_cross r k_0 k_1 k_2 k_3 k_4 k_5 Z_idx of
        None \<Rightarrow> Inl Not_finite
      | Some kappa_cross \<Rightarrow>
         if field_orientation = ''cross'' then Inr (Scalar (Z * kappa_cross))
         else if field_orientation = ''all''
         then Inr (Array [Z * kappa_par, Z * kappa_perp, Z * kappa_cross])
         else Inr NoneVal))))))"

definition f_alpha_par_e :: "real \<Rightarrow> real option" where
  "f_alpha_par_e Z =
     (let numerator = Z powr (2 / 3);
          denominator = 1.46 * Z powr (2 / 3) - 0.330 * Z powr (1 / 3) + 0.888
      in map_option (\<lambda>q. 1 - q) (py_div numerator denominator))"

definition f_alpha_0 :: "real \<Rightarrow> real" where
  "f_alpha_0 Z = 0.623 * Z powr (5 / 3) - 2.61 * Z powr (4 / 3) + 3.56 * Z + 0.557"

definition f_alpha_1 :: "real \<Rightarrow> real" where
  "f_alpha_1 Z = 2.24 * Z powr (2 / 3) - 1.11 * Z powr (1 / 3) + 1.84"

definition f_alpha_2 :: "real \<Rightarrow> real" where
  "f_alpha_2 Z = - 0.0983 * Z powr (1 / 3) + 0.0176"

definition f_a_0 :: "real \<Rightarrow> real" where
  "f_a_0 Z = 0.0759 * Z powr (8 / 3) + 0.897 * Z ^ 2 + 2.06 * Z + 1.06"

definition f_a_1 :: "real \<Rightarrow> real" where
  "f_a_1 Z = 2.18 * Z powr (5 / 3) + 5.31 * Z + 3.73"

definition f_a_2 :: "real \<Rightarrow> real" where
  "f_a_2 Z = 7.41 * Z + 1.11 * Z powr (2 / 3) - 1.17"

definition f_a_3 :: "real \<Rightarrow> real" where
  "f_a_3 Z = 3.89 * Z powr (2 / 3) - 4.51 * Z powr (1 / 3) + 6.76"

definition f_a_4 :: "real \<Rightarrow> real" where
  "f_a_4 Z = 2.26 * Z powr (1 / 3) + 0.281"

definition f_a_5 :: "real \<Rightarrow> real" where
  "f_a_5 Z = 1.18 * Z powr (5 / 3) - 1.03 * Z powr (4 / 3) + 3.60 * Z + 1.32"

definition f_alpha_perp ::
  "real \<Rightarrow> real \<Rightarrow> real list \<Rightarrow> real list \<Rightarrow> real list \<Rightarrow> real list \<Rightarrow> nat \<Rightarrow> real option" where
  "f_alpha_perp Z r alpha_par_e alpha_0 alpha_1 alpha_2 Z_idx =
     (let numerator = 1.46 * Z powr (2 / 3) * r + alpha_0 ! Z_idx * (1 - alpha_par_e ! Z_idx);
          denominator = r powr (5 / 3) +
            alpha_2 ! Z_idx * r powr (4 / 3) +
            alpha_1 ! Z_idx * r +
            alpha_0 ! Z_idx
      in map_option (\<lambda>q. 1 - q) (py_div numerator denominator))"

definition f_alpha_cross ::
  "real \<Rightarrow> real \<Rightarrow> real list \<Rightarrow> real list \<Rightarrow> real list \<Rightarrow> real list \<Rightarrow> real list \<Rightarrow> real list
     \<Rightarrow> nat \<Rightarrow> real option" where
  "f_alpha_cross Z r a_0 a_1 a_2 a_3 a_4 a_5 Z_idx =
     (case py_div (a_0 ! Z_idx) (a_5 ! Z_idx) of
        None \<Rightarrow> None
      | Some q \<Rightarrow>
          (let numerator = Z powr (2 / 3) * r * (2.53 * r + q);
               denominator = r powr (8 / 3) +
                 a_4 ! Z_idx * r powr (7 / 3) +
                 a_3 ! Z_idx * r ^ 2 +
                 a_2 ! Z_idx * r powr (5 / 3) +
                 a_1 ! Z_idx * r +
                 a_0 ! Z_idx
           in py_div numerator denominator))"

definition nondim_resist_ji_held :: "real \<Rightarrow> zval \<Rightarrow> string \<Rightarrow> error + val" where
  "nondim_resist_ji_held hall Zv field_orientation =
     (case check_Z ''nondim_resist_ji_held'' [ZNum 1, ZNum 2, ZArbitrary] Zv of
        Inl err \<Rightarrow> Inl err
      | Inr None \<Rightarrow> Inl Bad_index
      | Inr (Some Z_idx) \<Rightarrow>
     (case number_Z Zv of
        Inl err \<Rightarrow> Inl err
      | Inr Z \<Rightarrow>
     (let r = \<bar>Z * hall\<bar> in
      case f_alpha_par_e Z of
        None \<Rightarrow> Inl Not_finite
      | Some f_alpha_par_e_Z \<Rightarrow>
     (let alpha_par_e = [0.504, 0.431, f_alpha_par_e_Z];
          alpha_0 = [2.130, 3.078, f_alpha_0 Z];
          alpha_1 = [2.970, 3.997, f_alpha_1 Z];
          alpha_2 = [- 0.081, - 0.106, f_alpha_2 Z];
          a_0 = [4.093, 9.250, f_a_0 Z];
          a_1 = [11.22, 21.27, f_a_1 Z];
          a_2 = [7.350, 15.41, f_a_2 Z];
          a_3 = [6.140, 7.253, f_a_3 Z];
          a_4 = [2.541, 3.128, f_a_4 Z];
          a_5 = [5.070, 9.671, f_a_5 Z];
          alpha_par = alpha_par_e ! Z_idx
      in if field_orientation = ''parallel'' \<or> field_orientation = ''par''
         then Inr (Scalar alpha_par)
         else
     (case f_alpha_perp Z r alpha_par_e alpha_0 alpha_1 alpha_2 Z_idx of
        None \<Rightarrow> Inl Not_finite
      | Some alpha_perp \<Rightarrow>
         if field_orientation = ''perpendicular'' \<or> field_orientation = ''perp''
         then Inr (Scalar alpha_perp)
         else
     (case f_alpha_cross Z r a_0 a_1 a_2 a_3 a_4 a_5 Z_idx of
        None \<Rightarrow> Inl Not_finite
      | Some alpha_cross \<Rightarrow>
         if field_orientation = ''cross'' then Inr (Scalar alpha_cross)
         else if field_orientation = ''all''
         then Inr (Array [alpha_par, alpha_perp, alpha_cross])
         else Inr NoneVal))))))"

definition f_beta_par_e :: "real \<Rightarrow> real option" where
  "f_beta_par_e Z =
     (let numerator = Z powr (5 / 3);
          denominator = 0.693 * Z powr (5 / 3) - 0.279 * Z powr (4 / 3) + Z + 0.01
      in py_div numerator denominator)"

definition f_beta_0 :: "real \<Rightarrow> real" where
  "f_beta_0 Z = 0.156 * Z powr (8 / 3) + 0.994 * Z ^ 2 + 3.21 * Z - 0.84"

definition f_beta_1 :: "real \<Rightarrow> real" where
  "f_beta_1 Z = 3.69 * Z powr (5 / 3) + 3.77 * Z + 0.77"

definition f_beta_2 :: "real \<Rightarrow> real" where
  "f_beta_2 Z = 9.43 * Z + 4.22 * Z powr (2 / 3) - 12.9 * Z powr (1 / 3) + 4.56"

definition f_beta_3 :: "real \<Rightarrow> real" where
  "f_beta_3 Z = 2.70 * Z powr (2 / 3) + 1.46 * Z powr (1 / 3) - 0.17"

definition f_beta_4 :: "real \<Rightarrow> real" where
  "f_beta_4 Z = 2.58 * Z powr (1 / 3) + 0.17"

definition f_b_0 :: "real \<Rightarrow> real option" where
  "f_b_0 Z =
     (let numerator = 6.87 * Z ^ 3 + 78.2 * Z ^ 2 + 623 * Z + 366;
          denominator = 1000
      in py_div numerator denominator)"

definition f_b_1 :: "real \<Rightarrow> real" where
  "f_b_1 Z = 0.134 * Z ^ 2 + 0.977 * Z + 0.17"

definition f_b_2 :: "real \<Rightarrow> real" where
  "f_b_2 Z = 0.689 * Z powr (4 / 3) - 0.377 * Z powr (2 / 3) + 3.94 * Z powr (1 / 3) + 0.644"

definition f_b_3 :: "real \<Rightarrow> real" where
  "f_b_3 Z = - 0.109 * Z + 1.33 * Z powr (2 / 3) - 3.80 * Z powr (1 / 3) + 0.289"

definition f_b_4 :: "real \<Rightarrow> real" where
  "f_b_4 Z = 2.46 * Z powr (2 / 3) + 0.522"

definition f_b_5 :: "real \<Rightarrow> real" where
  "f_b_5 Z = 0.102 * Z ^ 2 + 0.746 * Z + 0.072 * Z powr (1 / 3) + 0.211"

definition f_beta_perp ::
  "real \<Rightarrow> real \<Rightarrow> real list \<Rightarrow> real list \<Rightarrow> real list \<Rightarrow> real list \<Rightarrow> real list \<Rightarrow> real list
     \<Rightarrow> nat \<Rightarrow> real option" where
  "f_beta_perp Z r beta_par_e beta_0 beta_1 beta_2 beta_3 beta_4 Z_idx =
     (let numerator = 6.33 * Z powr (5 / 3) * r + beta_0 ! Z_idx * beta_par_e ! Z_idx;
          denominator = r powr (8 / 3) +
            beta_4 ! Z_idx * r powr (7 / 3) +
            beta_3 ! Z_idx * r ^ 2 +
            beta_2 ! Z_idx * r powr (5 / 3) +
            beta_1 ! Z_idx * r +
            beta_0 ! Z_idx
      in py_div numerator denominator)"

definition f_beta_cross ::
  "real \<Rightarrow> real \<Rightarrow> real list \<Rightarrow> real list \<Rightarrow> real list \<Rightarrow> real list \<Rightarrow> real list \<Rightarrow> real list
     \<Rightarrow> nat \<Rightarrow> real option" where
  "f_beta_cross Z r b_0 b_1 b_2 b_3 b_4 b_5 Z_idx =
     (case py_div (b_0 ! Z_idx) (b_5 ! Z_idx) of
        None \<Rightarrow> None
      | Some q \<Rightarrow>
          (let numerator = Z * r * (3 / 2 * r + q);
               denominator = r ^ 3 +
                 b_4 ! Z_idx * r powr (7 / 3) +
                 b_3 ! Z_idx * r ^ 2 +
                 b_2 ! Z_idx * r powr (5 / 3) +
                 b_1 ! Z_idx * r +
                 b_0 ! Z_idx
           in py_div numerator denominator))"

definition nondim_tec_ji_held :: "real \<Rightarrow> zval \<Rightarrow> string \<Rightarrow> error + val" where
  "nondim_tec_ji_held hall Zv field_orientation =
     (case check_Z ''nondim_tec_ji_held'' [ZNum 1, ZNum 2, ZArbitrary] Zv of
        Inl err \<Rightarrow> Inl err
      | Inr None \<Rightarrow> Inl Bad_index
      | Inr (Some Z_idx) \<Rightarrow>
     (case number_Z Zv of
        Inl err \<Rightarrow> Inl err
      | Inr Z \<Rightarrow>
     (let r = \<bar>Z * hall\<bar> in
      case those [f_beta_par_e Z, f_b_0 Z] of
        None \<Rightarrow> Inl Not_finite
      | Some fs \<Rightarrow>
     (let beta_par_e = [0.702, 0.905, fs ! 0];
          beta_0 = [3.520, 10.55, f_beta_0 Z];
          beta_1 = [8.230, 20.03, f_beta_1 Z];
          beta_2 = [5.310, 13.87, f_beta_2 Z];
          beta_3 = [3.990, 5.955, f_beta_3 Z];
          beta_4 = [2.750, 3.421, f_beta_4 Z];
          b_0 = [1.074, 1.980, fs ! 1];
          b_1 = [1.281, 2.660, f_b_1 Z];
          b_2 = [4.896, 6.746, f_b_2 Z];
          b_3 = [- 2.290, - 2.605, f_b_3 Z];
          b_4 = [2.982, 4.427, f_b_4 Z];
          b_5 = [1.131, 2.202, f_b_5 Z];
          beta_par = beta_par_e ! Z_idx
      in if field_orientation = ''parallel'' \<or> field_orientation = ''par''
         then Inr (Scalar beta_par)
         else
     (case f_beta_perp Z r beta_par_e beta_0 beta_1 beta_2 beta_3 beta_4 Z_idx of
        None \<Rightarrow> Inl Not_finite
      | Some beta_perp \<Rightarrow>
         if field_orientation = ''perpendicular'' \<or> field_orientation = ''perp''
         then Inr (Scalar beta_perp)
         else
     (case f_beta_cross Z r b_0 b_1 b_2 b_3 b_4 b_5 Z_idx of
        None \<Rightarrow> Inl Not_finite
      | Some beta_cross \<Rightarrow>
         if field_orientation = ''cross'' then Inr (Scalar beta_cross)
         else if field_orientation = ''all''
         then Inr (Array [beta_par, beta_perp, beta_cross])
         else Inr NoneVal))))))"

definition f_eta_0_e :: "real \<Rightarrow> real option" where
  "f_eta_0_e Z = py_div 1 (0.55 * Z + 0.083 * Z powr (1 / 3) + 0.732)"

definition f_hprime_0 :: "real \<Rightarrow> real" where
  "f_hprime_0 Z = 0.0699 * Z ^ 3 + 0.558 * Z ^ 2 + 1.66 * Z + 1.06"

definition f_hprime_1 :: "real \<Rightarrow> real" where
  "f_hprime_1 Z = 0.657 * Z ^ 2 + 1.42 * Z + 0.416"

definition f_hprime_2 :: "real \<Rightarrow> real" where
  "f_hprime_2 Z = - 0.369 * Z powr (4 / 3) + 0.379 * Z + 0.339 * Z powr (1 / 3) + 2.17"

definition f_hprime_3 :: "real \<Rightarrow> real" where
  "f_hprime_3 Z = 2.16 * Z - 0.657 * Z powr (1 / 3) + 0.0347"

definition f_hprime_4 :: "real \<Rightarrow> real" where
  "f_hprime_4 Z = - 0.0703 * Z powr (2 / 3) - 0.224 * Z powr (1 / 3) + 0.333"

definition f_h_0 :: "real \<Rightarrow> real" where
  "f_h_0 Z = 0.0473 * Z ^ 3 + 0.323 * Z ^ 2 + 0.951 * Z + 0.407"

definition f_h_1 :: "real \<Rightarrow> real" where
  "f_h_1 Z = 0.171 * Z ^ 2 + 0.523 * Z + 0.336"

definition f_h_2 :: "real \<Rightarrow> real" where
  "f_h_2 Z = 0.362 * Z powr (4 / 3) + 0.178 * Z + 1.06 * Z powr (1 / 3) + 1.26"

definition f_h_3 :: "real \<Rightarrow> real" where
  "f_h_3 Z = 0.599 * Z + 0.106 * Z powr (2 / 3) - 0.444 * Z powr (1 / 3) - 0.161"

definition f_h_4 :: "real \<Rightarrow> real" where
  "f_h_4 Z = - 0.16 * Z powr (2 / 3) + 0.06 * Z powr (1 / 3) + 0.232"

definition f_h_5 :: "real \<Rightarrow> real" where
  "f_h_5 Z = 0.183 * Z ^ 2 + 0.714 * Z + 0.0375 * Z powr (1 / 3) + 0.47"

definition visc_e_ji_held_f_eta_2 ::
  "real \<Rightarrow> real list \<Rightarrow> real list \<Rightarrow> real list \<Rightarrow> real list \<Rightarrow> real list \<Rightarrow> real list
     \<Rightarrow> nat \<Rightarrow> real \<Rightarrow> real option" where
  "visc_e_ji_held_f_eta_2 Z eta_0_e hprime_0 hprime_1 hprime_2 hprime_3 hprime_4 Z_idx r =
     (let numerator = (6 / 5 * Z + 3 / 5 * sqrt 2) * r + hprime_0 ! Z_idx * eta_0_e ! Z_idx;
          denominator = r ^ 3 +
            hprime_4 ! Z_idx * r powr (7 / 3) +
            hprime_3 ! Z_idx * r ^ 2 +
            hprime_2 ! Z_idx * r powr (5 / 3) +
            hprime_1 ! Z_idx * r +
            hprime_0 ! Z_idx
      in py_div numerator denominator)"

definition visc_e_ji_held_f_eta_4 ::
  "real list \<Rightarrow> real list \<Rightarrow> real list \<Rightarrow> real list \<Rightarrow> real list \<Rightarrow> real list
     \<Rightarrow> nat \<Rightarrow> real \<Rightarrow> real option" where
  "visc_e_ji_held_f_eta_4 h_0 h_1 h_2 h_3 h_4 h_5 Z_idx r =
     (case py_div (h_0 ! Z_idx) (h_5 ! Z_idx) of
        None \<Rightarrow> None
      | Some q \<Rightarrow>
          (let numerator = r * (r + q);
               denominator = r ^ 3 +
                 h_4 ! Z_idx * r powr (7 / 3) +
                 h_3 ! Z_idx * r ^ 2 +
                 h_2 ! Z_idx * r powr (5 / 3) +
                 h_1 ! Z_idx * r +
                 h_0 ! Z_idx
           in py_div numerator denominator))"

definition nondim_visc_e_ji_held :: "real \<Rightarrow> zval \<Rightarrow> error + val" where
  "nondim_visc_e_ji_held hall Zv =
     (case check_Z ''nondim_visc_e_ji_held'' [ZNum 1, ZNum 2, ZArbitrary] Zv of
        Inl err \<Rightarrow> Inl err
      | Inr None \<Rightarrow> Inl Bad_index
      | Inr (Some Z_idx) \<Rightarrow>
     (case number_Z Zv of
        Inl err \<Rightarrow> Inl err
      | Inr Z \<Rightarrow>
     (let r = \<bar>Z * hall\<bar> in
      case f_eta_0_e Z of
        None \<Rightarrow> Inl Not_finite
      | Some f_eta_0_e_Z \<Rightarrow>
     (let eta_0_e = [0.733, 0.516, f_eta_0_e_Z];
          hprime_0 = [3.348, 7.171, f_hprime_0 Z];
          hprime_1 = [2.493, 5.884, f_hprime_1 Z];
          hprime_2 = [2.519, 2.425, f_hprime_2 Z];
          hprime_3 = [1.538, 3.527, f_hprime_3 Z];
          hprime_4 = [0.039, - 0.061, f_hprime_4 Z];
          h_0 = [1.728, 3.979, f_h_0 Z];
          h_1 = [1.030, 2.066, f_h_1 Z];
          h_2 = [2.860, 3.864, f_h_2 Z];
          h_3 = [0.100, 0.646, f_h_3 Z];
          h_4 = [0.132, 0.054, f_h_4 Z];
          h_5 = [1.405, 2.677, f_h_5 Z];
          eta_0 = eta_0_e ! Z_idx
      in case those
           [visc_e_ji_held_f_eta_2 Z eta_0_e hprime_0 hprime_1 hprime_2 hprime_3 hprime_4 Z_idx r,
            visc_e_ji_held_f_eta_2 Z eta_0_e hprime_0 hprime_1 hprime_2 hprime_3 hprime_4 Z_idx (2 * r),
            visc_e_ji_held_f_eta_4 h_0 h_1 h_2 h_3 h_4 h_5 Z_idx r,
            visc_e_ji_held_f_eta_4 h_0 h_1 h_2 h_3 h_4 h_5 Z_idx (2 * r)] of
           Some [eta_2, eta_1, eta_4, eta_3] \<Rightarrow> Inr (Array [eta_0, eta_1, eta_2, eta_3, eta_4])
         | _ \<Rightarrow> Inl Not_finite))))"

subsection \<open>Ji-Held, ions\<close>

text \<open>
  \<^verbatim>\<open>zeta = 1/Z * np.sqrt(mu/theta)\<close>. \<^verbatim>\<open>1/Z\<close> is evaluated first: a TypeError for the string,
  zero for an infinite Z, no finite result for Z = 0. Then \<^verbatim>\<open>mu/theta\<close>: a TypeError when
  one of them is \<^verbatim>\<open>None\<close>, no finite result when \<open>theta\<close> is zero or the quotient negative.
\<close>

definition ji_held_zeta :: "zval \<Rightarrow> real option \<Rightarrow> real option \<Rightarrow> error + real" where
  "ji_held_zeta Z mu theta =
     (case (case Z of
              ZArbitrary \<Rightarrow> Inl Not_a_number
            | ZInf \<Rightarrow> Inr 0
            | ZNum z \<Rightarrow> (case py_div 1 z of None \<Rightarrow> Inl Not_finite | Some q \<Rightarrow> Inr q)) of
        Inl err \<Rightarrow> Inl err
      | Inr inverse_Z \<Rightarrow>
          (case (mu, theta) of
             (Some mu_val, Some theta_val) \<Rightarrow>
               (case py_div mu_val theta_val of
                  None \<Rightarrow> Inl Not_finite
                | Some q \<Rightarrow> if q < 0 then Inl Not_finite else Inr (inverse_Z * sqrt q))
           | _ \<Rightarrow> Inl Not_a_number))"

text \<open>
  The source fixes \<^verbatim>\<open>K = 3\<close> (the 3x3 moments); the branches for \<^verbatim>\<open>K == 2\<close> are never taken
  and are left out.
\<close>

definition nondim_tc_i_ji_held ::
  "real \<Rightarrow> zval \<Rightarrow> real option \<Rightarrow> real option \<Rightarrow> string \<Rightarrow> error + val" where
  "nondim_tc_i_ji_held hall Z mu theta field_orientation =
     (case ji_held_zeta Z mu theta of
        Inl err \<Rightarrow> Inl err
      | Inr zeta \<Rightarrow>
     (let r = \<bar>hall / sqrt 2\<bar>;
          Delta_par_i1 = 1 + 26.90 * zeta + 187.5 * zeta ^ 2 + 346.9 * zeta ^ 3
      in case py_div (5.586 + 101.7 * zeta + 289.1 * zeta ^ 2) Delta_par_i1 of
        None \<Rightarrow> Inl Not_finite
      | Some kappa_par_i \<Rightarrow>
         if field_orientation = ''parallel'' \<or> field_orientation = ''par''
         then Inr (Scalar (kappa_par_i / sqrt 2))
         else
     (let Delta_perp_i1 = r ^ 6 +
            (3.635 + 29.15 * zeta + 83 * zeta ^ 2) * r ^ 4 +
            (1.395 + 35.64 * zeta + 344.9 * zeta ^ 2 +
             1345 * zeta ^ 3 + 1891 * zeta ^ 4) * r ^ 2 +
            0.09163 * Delta_par_i1 ^ 2
      in case py_div ((sqrt 2 + 15 / 2 * zeta) * r ^ 4 +
                      (3.841 + 57.59 * zeta + 297.8 * zeta ^ 2 +
                       555 * zeta ^ 3) * r ^ 2 +
                      0.09163 * kappa_par_i * Delta_par_i1 ^ 2) Delta_perp_i1 of
        None \<Rightarrow> Inl Not_finite
      | Some kappa_perp_i \<Rightarrow>
         if field_orientation = ''perpendicular'' \<or> field_orientation = ''perp''
         then Inr (Scalar (kappa_perp_i / sqrt 2))
         else
     (case py_div (r * (5 / 2 * r ^ 4 +
                        (7.963 + 64.40 * zeta + 185 * zeta ^ 2) * r ^ 2 +
                        1.344 + 44.54 * zeta + 511.9 * zeta ^ 2 +
                        2155 * zeta ^ 3 + 3063 * zeta ^ 4)) Delta_perp_i1 of
        None \<Rightarrow> Inl Not_finite
      | Some kappa_cross_i \<Rightarrow>
         if field_orientation = ''cross'' then Inr (Scalar (kappa_cross_i / sqrt 2))
         else if field_orientation = ''all''
         then Inr (Array [kappa_par_i / sqrt 2, kappa_perp_i / sqrt 2, kappa_cross_i / sqrt 2])
         else Inr NoneVal))))"

definition nondim_visc_i_ji_held ::
  "real \<Rightarrow> zval \<Rightarrow> real option \<Rightarrow> real option \<Rightarrow> error + val" where
  "nondim_visc_i_ji_held hall Z mu theta =
     (case ji_held_zeta Z mu theta of
        Inl err \<Rightarrow> Inl err
      | Inr zeta \<Rightarrow>
     (let r = \<bar>hall / sqrt 2\<bar>;
          r13 = 2 * r;
          Delta_par_i2 = 1 + 15.79 * zeta + 63.92 * zeta ^ 2 + 71.69 * zeta ^ 3;
          Delta_perp_i2 = r ^ 6 +
            (4.391 + 26.69 * zeta + 56 * zeta ^ 2) * r ^ 4 +
            (3.191 + 49.62 * zeta + 306.4 * zeta ^ 2 +
             808.1 * zeta ^ 3 + 784 * zeta ^ 4) * r ^ 2 +
            0.4483 * Delta_par_i2 ^ 2
      in case py_div (1.365 + 16.75 * zeta + 35.84 * zeta ^ 2) Delta_par_i2 of
        None \<Rightarrow> Inl Not_finite
      | Some eta_0_i \<Rightarrow>
     (case those
        [py_div ((3 / 5 * sqrt 2 + 2 * zeta) * r ^ 4 +
                 (2.680 + 25.98 * zeta + 90.71 * zeta ^ 2 + 104 * zeta ^ 3) * r ^ 2 +
                 0.4483 * eta_0_i * Delta_par_i2 ^ 2) Delta_perp_i2,
         py_div ((3 / 5 * sqrt 2 + 2 * zeta) * r13 ^ 4 +
                 (2.680 + 25.98 * zeta + 90.71 * zeta ^ 2 + 104 * zeta ^ 3) * r13 ^ 2 +
                 0.4483 * eta_0_i * Delta_par_i2 ^ 2) Delta_perp_i2,
         py_div (r * (r ^ 4 +
                      (3.535 + 23.30 * zeta + 52 * zeta ^ 2) * r ^ 2 +
                      0.9538 + 21.81 * zeta + 174.2 * zeta ^ 2 +
                      538.4 * zeta ^ 3 + 576 * zeta ^ 4)) Delta_perp_i2,
         py_div (r13 * (r13 ^ 4 +
                        (3.535 + 23.30 * zeta + 52 * zeta ^ 2) * r13 ^ 2 +
                        0.9538 + 21.81 * zeta + 174.2 * zeta ^ 2 +
                        538.4 * zeta ^ 3 + 576 * zeta ^ 4)) Delta_perp_i2] of
        Some [eta_2_i, eta_1_i, eta_4_i, eta_3_i] \<Rightarrow>
          Inr (Array [eta_0_i / sqrt 2, eta_1_i / sqrt 2, eta_2_i / sqrt 2,
                      eta_3_i / sqrt 2, eta_4_i / sqrt 2])
      | _ \<Rightarrow> Inl Not_finite)))"

subsection \<open>Functions and constants of other modules\<close>

text \<open>
  \<^item> \<open>ion_mass\<close>, \<open>charge_state\<close> (plasmapy.atomic): \<open>None\<close> when the call raises;
  \<^item> \<open>is_electron\<close> (plasmapy.atomic.atomic._is_electron);
  \<^item> \<open>Debye_length\<close>, \<open>Hall_parameter\<close>, \<open>electron_ion_collision_rate\<close>,
    \<open>ion_ion_collision_rate\<close> (plasmapy.physics.parameters), with the arguments in the order
    of the calls in this module;
  \<^item> \<open>check_relativistic V\<close> (plasmapy.utils.checks._check_relativistic, called with the
    function name and \<^verbatim>\<open>betafrac=0.8\<close>): \<open>Some err\<close> when it raises; its warning is not
    recorded;
  \<^item> the constants \<open>k_B\<close>, \<open>e_charge\<close> (\<^verbatim>\<open>e\<close>), \<open>eps0\<close>, \<open>hbar\<close>, \<open>m_e\<close> of plasmapy.constants.
\<close>

record env =
  ion_mass :: "string \<Rightarrow> real option"
  charge_state :: "string \<Rightarrow> int option"
  is_electron :: "string \<Rightarrow> bool"
  Debye_length :: "real \<Rightarrow> real \<Rightarrow> error + real"
  check_relativistic :: "real \<Rightarrow> error option"
  Hall_parameter :: "real \<Rightarrow> real \<Rightarrow> real \<Rightarrow> string \<Rightarrow> string \<Rightarrow> real \<Rightarrow> real option \<Rightarrow> error + real"
  electron_ion_collision_rate :: "real \<Rightarrow> real \<Rightarrow> string \<Rightarrow> real \<Rightarrow> real option \<Rightarrow> error + real"
  ion_ion_collision_rate :: "real \<Rightarrow> real \<Rightarrow> string \<Rightarrow> real \<Rightarrow> real option \<Rightarrow> error + real"
  k_B :: real
  e_charge :: real
  eps0 :: real
  hbar :: real
  m_e :: real

subsection \<open>Dispatch on the model\<close>

definition nondim_thermal_conductivity ::
  "env \<Rightarrow> real \<Rightarrow> zval \<Rightarrow> string \<Rightarrow> string \<Rightarrow> string \<Rightarrow> real option \<Rightarrow> real option
     \<Rightarrow> error + val" where
  "nondim_thermal_conductivity ext hall Z particle model field_orientation mu theta =
     (if is_electron ext particle then
        (if model = ''spitzer-harm'' \<or> model = ''spitzer'' then nondim_tc_e_spitzer Z
         else if model = ''braginskii'' then nondim_tc_e_braginskii hall Z field_orientation
         else if model = ''ji-held'' then nondim_tc_e_ji_held hall Z field_orientation
         else Inr (Scalar 1))
      else
        (if model = ''braginskii'' then nondim_tc_i_braginskii hall field_orientation
         else if model = ''ji-held'' then nondim_tc_i_ji_held hall Z mu theta field_orientation
         else Inr (Scalar 1)))"

definition nondim_viscosity ::
  "env \<Rightarrow> real \<Rightarrow> zval \<Rightarrow> string \<Rightarrow> string \<Rightarrow> string \<Rightarrow> real option \<Rightarrow> real option
     \<Rightarrow> error + val" where
  "nondim_viscosity ext hall Z particle model field_orientation mu theta =
     (if is_electron ext particle then
        (if model = ''braginskii'' then nondim_visc_e_braginskii hall Z
         else if model = ''ji-held'' then nondim_visc_e_ji_held hall Z
         else Inr (Scalar 1))
      else
        (if model = ''braginskii'' then nondim_visc_i_braginskii hall
         else if model = ''ji-held'' then nondim_visc_i_ji_held hall Z mu theta
         else Inr (Scalar 1)))"

definition nondim_resisitivity ::
  "real \<Rightarrow> zval \<Rightarrow> string \<Rightarrow> string \<Rightarrow> string \<Rightarrow> error + val" where
  "nondim_resisitivity hall Z particle model field_orientation =
     (if model = ''spitzer-harm'' \<or> model = ''spitzer'' then nondim_resist_spitzer Z
      else if model = ''braginskii'' then nondim_resist_braginskii hall Z field_orientation
      else if model = ''ji-held'' then nondim_resist_ji_held hall Z field_orientation
      else Inr (Scalar 1))"

definition nondim_te_conductivity ::
  "real \<Rightarrow> zval \<Rightarrow> string \<Rightarrow> string \<Rightarrow> string \<Rightarrow> error + val" where
  "nondim_te_conductivity hall Z particle model field_orientation =
     (if model = ''spitzer-harm'' \<or> model = ''spitzer'' then nondim_tec_spitzer Z
      else if model = ''braginskii'' then nondim_tec_braginskii hall Z field_orientation
      else if model = ''ji-held'' then nondim_tec_ji_held hall Z field_orientation
      else Inr (Scalar 1))"

subsection \<open>Coulomb_logarithm\<close>

text \<open>
  The loop that fills \<^verbatim>\<open>b_min\<close>, over the flattened arrays \<^verbatim>\<open>b_perp.flat\<close> and
  \<^verbatim>\<open>b_deBroglie.flat\<close>: element \<open>i\<close> of the result is \<^verbatim>\<open>b_perp.flat[i]\<close> when that is the
  greater one, \<^verbatim>\<open>b_deBroglie.flat[i]\<close> otherwise.
\<close>

fun b_min_loop :: "real list \<Rightarrow> real list \<Rightarrow> real list" where
  "b_min_loop (p # b_perp) (d # b_deBroglie) =
     (if p > d then p else d) # b_min_loop b_perp b_deBroglie"
| "b_min_loop b_perp b_deBroglie = []"

text \<open>
  \<^verbatim>\<open>Coulomb_logarithm(T, n_e, particles, V=None)\<close> for scalar \<open>T\<close>, \<open>n_e\<close> and \<open>V\<close>: the arrays
  \<^verbatim>\<open>b_perp\<close> and \<^verbatim>\<open>b_deBroglie\<close> have one element. The body is modelled; the decorator
  (which rejects wrong units and a negative \<open>T\<close>) is not.
\<close>

definition Coulomb_logarithm ::
  "env \<Rightarrow> real \<Rightarrow> real \<Rightarrow> string list \<Rightarrow> real option \<Rightarrow> error + real" where
  "Coulomb_logarithm ext T n_e particles V =
     (if length particles \<noteq> 2 then Inl Particles_not_pair
      else case ion_mass ext (particles ! 0) of
        None \<Rightarrow> Inl (Mass_not_found (particles ! 0) ''Coulomb_logarithm'')
      | Some masses_0 \<Rightarrow>
     (case charge_state ext (particles ! 0) of
        None \<Rightarrow> Inl (Charge_not_found (particles ! 0) ''Coulomb_logarithm'')
      | Some charge_state_0 \<Rightarrow>
     (case ion_mass ext (particles ! 1) of
        None \<Rightarrow> Inl (Mass_not_found (particles ! 1) ''Coulomb_logarithm'')
      | Some masses_1 \<Rightarrow>
     (case charge_state ext (particles ! 1) of
        None \<Rightarrow> Inl (Charge_not_found (particles ! 1) ''Coulomb_logarithm'')
      | Some charge_state_1 \<Rightarrow>
     (let charges_0 = \<bar>e_charge ext * of_int charge_state_0\<bar>;
          charges_1 = \<bar>e_charge ext * of_int charge_state_1\<bar>
      in case py_div (masses_0 * masses_1) (masses_0 + masses_1) of
        None \<Rightarrow> Inl Not_finite
      | Some reduced_mass \<Rightarrow>
     (case Debye_length ext T n_e of
        Inl err \<Rightarrow> Inl err
      | Inr b_max \<Rightarrow>
     (case (case V of
              Some v \<Rightarrow> Inr v
            | None \<Rightarrow>
                (case py_div (3 * k_B ext * T) reduced_mass of
                   None \<Rightarrow> Inl Not_finite
                 | Some q \<Rightarrow> if q < 0 then Inl Not_finite else Inr (sqrt q))) of
        Inl err \<Rightarrow> Inl err
      | Inr V \<Rightarrow>
     (case check_relativistic ext V of
        Some err \<Rightarrow> Inl err
      | None \<Rightarrow>
     (case py_div (charges_0 * charges_1) (4 * pi * eps0 ext * reduced_mass * V ^ 2) of
        None \<Rightarrow> Inl Not_finite
      | Some b_perp \<Rightarrow>
     (case py_div (hbar ext) (2 * reduced_mass * V) of
        None \<Rightarrow> Inl Not_finite
      | Some b_deBroglie \<Rightarrow>
     (let b_min = b_min_loop [b_perp] [b_deBroglie] ! 0
      in case py_div b_max b_min of
        None \<Rightarrow> Inl Not_finite
      | Some q \<Rightarrow> if q \<le> 0 then Inl Not_finite else Inr (ln q))))))))))))"

subsection \<open>Dimensional coefficients\<close>

text \<open>
  A nondimensional result times, or divided by, a quantity. \<^verbatim>\<open>None\<close> in an arithmetic
  operation raises a TypeError; a division by zero has no finite result.
\<close>

fun val_times :: "val \<Rightarrow> real \<Rightarrow> error + val" where
  "val_times (Scalar x) c = Inr (Scalar (x * c))"
| "val_times (Array xs) c = Inr (Array (map (\<lambda>x. x * c) xs))"
| "val_times NoneVal c = Inl Not_a_number"

fun val_div :: "val \<Rightarrow> real \<Rightarrow> error + val" where
  "val_div NoneVal c = Inl Not_a_number"
| "val_div (Scalar x) c = (if c = 0 then Inl Not_finite else Inr (Scalar (x / c)))"
| "val_div (Array xs) c = (if c = 0 then Inl Not_finite else Inr (Array (map (\<lambda>x. x / c) xs)))"

text \<open>
  \<^verbatim>\<open>tau = 1/rate\<close>, the rate being the result of a collision rate function.
\<close>

definition collision_time :: "error + real \<Rightarrow> error + real" where
  "collision_time rate =
     (case rate of
        Inl err \<Rightarrow> Inl err
      | Inr rate_val \<Rightarrow> (case py_div 1 rate_val of None \<Rightarrow> Inl Not_finite | Some tau \<Rightarrow> Inr tau))"

definition resistivity ::
  "env \<Rightarrow> real \<Rightarrow> real \<Rightarrow> string \<Rightarrow> string \<Rightarrow> zval \<Rightarrow> real \<Rightarrow> string \<Rightarrow> string \<Rightarrow> real
     \<Rightarrow> real option \<Rightarrow> real \<Rightarrow> error + val" where
  "resistivity ext T_e n_e ion_particle e_particle Z B model field_orientation
       coulomb_log_ei V_ei hall_e =
     (case nondim_resisitivity hall_e Z e_particle model field_orientation of
        Inl err \<Rightarrow> Inl err
      | Inr alpha_hat \<Rightarrow>
     (case collision_time
             (electron_ion_collision_rate ext T_e n_e ion_particle coulomb_log_ei V_ei) of
        Inl err \<Rightarrow> Inl err
      | Inr tau_e \<Rightarrow>
     (case py_div (n_e * e_charge ext ^ 2 * tau_e) (m_e ext) of
        None \<Rightarrow> Inl Not_finite
      | Some q \<Rightarrow> val_div alpha_hat q)))"

definition thermoelectric_conductivity ::
  "env \<Rightarrow> real \<Rightarrow> real \<Rightarrow> string \<Rightarrow> zval \<Rightarrow> real \<Rightarrow> string \<Rightarrow> string \<Rightarrow> real
     \<Rightarrow> real option \<Rightarrow> real \<Rightarrow> error + val" where
  "thermoelectric_conductivity ext T_e n_e e_particle Z B model field_orientation
       coulomb_log_ei V_ei hall_e =
     (case nondim_te_conductivity hall_e Z e_particle model field_orientation of
        Inl err \<Rightarrow> Inl err
      | Inr beta_hat \<Rightarrow> val_times beta_hat 1)"

definition ion_thermal_conductivity ::
  "env \<Rightarrow> real \<Rightarrow> real \<Rightarrow> string \<Rightarrow> zval \<Rightarrow> real \<Rightarrow> string \<Rightarrow> string \<Rightarrow> real
     \<Rightarrow> real option \<Rightarrow> real \<Rightarrow> real option \<Rightarrow> real option \<Rightarrow> error + val" where
  "ion_thermal_conductivity ext T_i n_i ion_particle Z B model field_orientation
       coulomb_log_ii V_ii hall_i mu theta =
     (case ion_mass ext ion_particle of
        None \<Rightarrow> Inl (External ''ion_mass'')
      | Some m_i \<Rightarrow>
     (case nondim_thermal_conductivity ext hall_i Z ion_particle model field_orientation
             mu theta of
        Inl err \<Rightarrow> Inl err
      | Inr kappa_hat \<Rightarrow>
     (case collision_time (ion_ion_collision_rate ext T_i n_i ion_particle coulomb_log_ii V_ii) of
        Inl err \<Rightarrow> Inl err
      | Inr tau_i \<Rightarrow>
     (case py_div (n_i * k_B ext ^ 2 * T_i * tau_i) m_i of
        None \<Rightarrow> Inl Not_finite
      | Some q \<Rightarrow> val_times kappa_hat q))))"

definition electron_thermal_conductivity ::
  "env \<Rightarrow> real \<Rightarrow> real \<Rightarrow> string \<Rightarrow> string \<Rightarrow> zval \<Rightarrow> real \<Rightarrow> string \<Rightarrow> string \<Rightarrow> real
     \<Rightarrow> real option \<Rightarrow> real \<Rightarrow> real option \<Rightarrow> real option \<Rightarrow> error + val" where
  "electron_thermal_conductivity ext T_e n_e ion_particle e_particle Z B model field_orientation
       coulomb_log_ei V_ei hall_e mu theta =
     (case nondim_thermal_conductivity ext hall_e Z e_particle model field_orientation
             mu theta of
        Inl err \<Rightarrow> Inl err
      | Inr kappa_hat \<Rightarrow>
     (case collision_time
             (electron_ion_collision_rate ext T_e n_e ion_particle coulomb_log_ei V_ei) of
        Inl err \<Rightarrow> Inl err
      | Inr tau_e \<Rightarrow>
     (case py_div (n_e * k_B ext ^ 2 * T_e * tau_e) (m_e ext) of
        None \<Rightarrow> Inl Not_finite
      | Some q \<Rightarrow> val_times kappa_hat q)))"

text \<open>
  Modelled from numpy's documentation (numpy is not part of the repository):
  \<^verbatim>\<open>np.isclose(a, b, rtol, atol)\<close> is \<^verbatim>\<open>absolute(a - b) <= (atol + rtol * absolute(b))\<close>, and
  \<^verbatim>\<open>atol\<close> defaults to \<^verbatim>\<open>1e-8\<close>.
\<close>

definition np_isclose :: "real \<Rightarrow> real \<Rightarrow> real \<Rightarrow> real \<Rightarrow> bool" where
  "np_isclose a b rtol atol = (\<bar>a - b\<bar> \<le> atol + rtol * \<bar>b\<bar>)"

text \<open>
  \<^verbatim>\<open>eta_hat[0]\<close> ... \<^verbatim>\<open>eta_hat[4]\<close>: the five components of the nondimensional viscosity. The
  placeholder 1 is not subscriptable.
\<close>

definition five_components :: "val \<Rightarrow> error + real list" where
  "five_components eta_hat =
     (case eta_hat of
        Scalar x \<Rightarrow> Inl Not_subscriptable
      | NoneVal \<Rightarrow> Inl Not_subscriptable
      | Array xs \<Rightarrow> if length xs < 5 then Inl Index_out_of_range else Inr xs)"

text \<open>
  The two viscosities. The units of the five components are equal (the Hall parameter is
  dimensionless), so the final \<^verbatim>\<open>if\<close> of the source always builds \<^verbatim>\<open>eta\<close>.
\<close>

definition ion_viscosity ::
  "env \<Rightarrow> real \<Rightarrow> real \<Rightarrow> string \<Rightarrow> zval \<Rightarrow> real \<Rightarrow> string \<Rightarrow> string \<Rightarrow> real
     \<Rightarrow> real option \<Rightarrow> real \<Rightarrow> real option \<Rightarrow> real option \<Rightarrow> error + val" where
  "ion_viscosity ext T_i n_i ion_particle Z B model field_orientation
       coulomb_log_ii V_ii hall_i mu theta =
     (case nondim_viscosity ext hall_i Z ion_particle model field_orientation mu theta of
        Inl err \<Rightarrow> Inl err
      | Inr eta_hat \<Rightarrow>
     (case collision_time (ion_ion_collision_rate ext T_i n_i ion_particle coulomb_log_ii V_ii) of
        Inl err \<Rightarrow> Inl err
      | Inr tau_i \<Rightarrow>
     (case five_components eta_hat of
        Inl err \<Rightarrow> Inl err
      | Inr eta_hat \<Rightarrow>
         if np_isclose hall_i 0 (1 / 10 ^ 8) (1 / 10 ^ 8)
         then Inr (Array [eta_hat ! 0 * (n_i * k_B ext * T_i * tau_i),
                          eta_hat ! 1 * (n_i * k_B ext * T_i * tau_i),
                          eta_hat ! 2 * (n_i * k_B ext * T_i * tau_i),
                          eta_hat ! 3 * (n_i * k_B ext * T_i * tau_i),
                          eta_hat ! 4 * (n_i * k_B ext * T_i * tau_i)])
         else Inr (Array [eta_hat ! 0 * (n_i * k_B ext * T_i * tau_i),
                          eta_hat ! 1 * (n_i * k_B ext * T_i * tau_i) / hall_i ^ 2,
                          eta_hat ! 2 * (n_i * k_B ext * T_i * tau_i) / hall_i ^ 2,
                          eta_hat ! 3 * (n_i * k_B ext * T_i * tau_i) / hall_i,
                          eta_hat ! 4 * (n_i * k_B ext * T_i * tau_i) / hall_i]))))"

definition electron_viscosity ::
  "env \<Rightarrow> real \<Rightarrow> real \<Rightarrow> string \<Rightarrow> string \<Rightarrow> zval \<Rightarrow> real \<Rightarrow> string \<Rightarrow> string \<Rightarrow> real
     \<Rightarrow> real option \<Rightarrow> real \<Rightarrow> real option \<Rightarrow> real option \<Rightarrow> error + val" where
  "electron_viscosity ext T_e n_e ion_particle e_particle Z B model field_orientation
       coulomb_log_ei V_ei hall_e mu theta =
     (case nondim_viscosity ext hall_e Z e_particle model field_orientation mu theta of
        Inl err \<Rightarrow> Inl err
      | Inr eta_hat \<Rightarrow>
     (case collision_time
             (electron_ion_collision_rate ext T_e n_e ion_particle coulomb_log_ei V_ei) of
        Inl err \<Rightarrow> Inl err
      | Inr tau_e \<Rightarrow>
     (case five_components eta_hat of
        Inl err \<Rightarrow> Inl err
      | Inr eta_hat \<Rightarrow>
         if np_isclose hall_e 0 (1 / 10 ^ 8) (1 / 10 ^ 8)
         then Inr (Array [eta_hat ! 0 * (n_e * k_B ext * T_e * tau_e),
                          eta_hat ! 1 * (n_e * k_B ext * T_e * tau_e),
                          eta_hat ! 2 * (n_e * k_B ext * T_e * tau_e),
                          eta_hat ! 3 * (n_e * k_B ext * T_e * tau_e),
                          eta_hat ! 4 * (n_e * k_B ext * T_e * tau_e)])
         else Inr (Array [eta_hat ! 0 * (n_e * k_B ext * T_e * tau_e),
                          eta_hat ! 1 * (n_e * k_B ext * T_e * tau_e) / hall_e ^ 2,
                          eta_hat ! 2 * (n_e * k_B ext * T_e * tau_e) / hall_e ^ 2,
                          eta_hat ! 3 * (n_e * k_B ext * T_e * tau_e) / hall_e,
                          eta_hat ! 4 * (n_e * k_B ext * T_e * tau_e) / hall_e]))))"

subsection \<open>classical_transport\<close>

text \<open>
  \<^verbatim>\<open>str.lower()\<close> on ASCII strings: the letters A to Z are replaced, every other character
  is kept.
\<close>

definition lower_char :: "char \<Rightarrow> char" where
  "lower_char c =
     (case map_of (zip ''ABCDEFGHIJKLMNOPQRSTUVWXYZ'' ''abcdefghijklmnopqrstuvwxyz'') c of
        Some l \<Rightarrow> l
      | None \<Rightarrow> c)"

definition lower :: "string \<Rightarrow> string" where
  "lower s = map lower_char s"

definition valid_coeffs :: "string list" where
  "valid_coeffs = [''resistivity'',
                   ''thermoelectric_conductivity'',
                   ''ion_thermal_conductivity'',
                   ''electron_thermal_conductivity'',
                   ''ion_viscosity'',
                   ''electron_viscosity'']"

definition valid_models :: "string list" where
  "valid_models = [''braginskii'',
                   ''spitzer'',
                   ''spitzer-harm'',
                   ''ji-held'']"

definition valid_fields :: "string list" where
  "valid_fields = [''parallel'', ''par'',
                   ''perpendicular'', ''perp'',
                   ''cross'',
                   ''all'']"

text \<open>
  What a call does besides returning: the warnings it emits (\<open>Strong_coupling name v\<close> is the
  PhysicsWarning "name is v, you might have strong coupling effects") and the transport
  functions it invokes, in order.
\<close>

datatype event = Strong_coupling string real | Invoked string

text \<open>
  The three validation loops (the source's lines 396 to 436), on the lower-case strings: the
  first coefficient that is not in \<open>valid_coeffs\<close> raises, then the model, then the field
  orientation.
\<close>

definition validate_names :: "string list \<Rightarrow> string \<Rightarrow> string \<Rightarrow> error option" where
  "validate_names coeffs model field_orientation =
     (case find (\<lambda>coeff. coeff \<notin> set valid_coeffs) coeffs of
        Some coeff \<Rightarrow> Some (Unknown_coefficient coeff)
      | None \<Rightarrow>
          if model \<notin> set valid_models then Some (Unknown_model model)
          else if field_orientation \<notin> set valid_fields
          then Some (Unknown_field field_orientation)
          else None)"

text \<open>
  The ion mass and the charge state (lines 445 to 461). A Z given by the caller is compared
  with 0, which raises a TypeError for a string.
\<close>

definition resolve_ion :: "env \<Rightarrow> string \<Rightarrow> zval option \<Rightarrow> error + (real \<times> zval)" where
  "resolve_ion ext ion_particle Z =
     (case ion_mass ext ion_particle of
        None \<Rightarrow> Inl (Mass_not_found ion_particle ''classical_transport'')
      | Some m_i \<Rightarrow>
          (case Z of
             None \<Rightarrow>
               (case charge_state ext ion_particle of
                  None \<Rightarrow> Inl (Charge_not_found ion_particle ''classical_transport'')
                | Some z \<Rightarrow> Inr (m_i, ZNum (of_int z)))
           | Some ZArbitrary \<Rightarrow> Inl Not_a_number
           | Some ZInf \<Rightarrow> Inr (m_i, ZInf)
           | Some (ZNum z) \<Rightarrow> if z < 0 then Inl Negative_Z else Inr (m_i, ZNum z)))"

text \<open>
  The Coulomb logarithms (lines 466 to 484): each is the caller's value or is computed, then
  checked against 4 (a warning) and against 1 (an error), the electron-ion one first.
\<close>

definition resolve_coulomb_logs ::
  "env \<Rightarrow> real \<Rightarrow> real \<Rightarrow> real \<Rightarrow> string \<Rightarrow> string \<Rightarrow> real option \<Rightarrow> real option
     \<Rightarrow> real option \<Rightarrow> real option \<Rightarrow> event list \<times> (error + (real \<times> real))" where
  "resolve_coulomb_logs ext T_e n_e T_i ion_particle e_particle
       coulomb_log_ei V_ei coulomb_log_ii V_ii =
     (case (case coulomb_log_ei of
              Some v \<Rightarrow> Inr v
            | None \<Rightarrow> Coulomb_logarithm ext T_e n_e [e_particle, ion_particle] V_ei) of
        Inl err \<Rightarrow> ([], Inl err)
      | Inr coulomb_log_ei \<Rightarrow>
     (let warned_ei = (if coulomb_log_ei < 4
                       then [Strong_coupling ''coulomb_log_ei'' coulomb_log_ei] else [])
      in if coulomb_log_ei < 1
         then (warned_ei, Inl (Coulomb_log_below_1 ''coulomb_log_ei'' coulomb_log_ei))
         else
     (case (case coulomb_log_ii of
              Some v \<Rightarrow> Inr v
            | None \<Rightarrow> Coulomb_logarithm ext T_i n_e [ion_particle, ion_particle] V_ii) of
        Inl err \<Rightarrow> (warned_ei, Inl err)
      | Inr coulomb_log_ii \<Rightarrow>
     (let warned_ii = (if coulomb_log_ii < 4
                       then [Strong_coupling ''coulomb_log_ii'' coulomb_log_ii] else [])
      in if coulomb_log_ii < 1
         then (warned_ei @ warned_ii, Inl (Coulomb_log_below_1 ''coulomb_log_ii'' coulomb_log_ii))
         else (warned_ei @ warned_ii, Inr (coulomb_log_ei, coulomb_log_ii))))))"

text \<open>
  The Hall parameters (lines 486 to 492).
\<close>

definition resolve_hall ::
  "env \<Rightarrow> real \<Rightarrow> real \<Rightarrow> real \<Rightarrow> real \<Rightarrow> real \<Rightarrow> string \<Rightarrow> string \<Rightarrow> real \<Rightarrow> real option
     \<Rightarrow> real \<Rightarrow> real option \<Rightarrow> real option \<Rightarrow> real option \<Rightarrow> error + (real \<times> real)" where
  "resolve_hall ext T_e n_e T_i n_i B ion_particle e_particle coulomb_log_ei V_ei
       coulomb_log_ii V_ii hall_e hall_i =
     (case (case hall_e of
              Some h \<Rightarrow> Inr h
            | None \<Rightarrow> Hall_parameter ext n_e T_e B e_particle ion_particle coulomb_log_ei V_ei) of
        Inl err \<Rightarrow> Inl err
      | Inr hall_e \<Rightarrow>
          (case (case hall_i of
                   Some h \<Rightarrow> Inr h
                 | None \<Rightarrow>
                     Hall_parameter ext n_i T_i B ion_particle ion_particle coulomb_log_ii V_ii) of
             Inl err \<Rightarrow> Inl err
           | Inr hall_i \<Rightarrow> Inr (hall_e, hall_i)))"

text \<open>
  The mass and temperature ratios of the Ji-Held model (lines 494 to 499). With \<open>T_i = 0\<close>
  (or an ion mass of zero) the source computes an infinite ratio and goes on, so that a
  coefficient that does not use the ratio is still returned; the model has no infinite
  numbers and ends with \<open>Not_finite\<close> there.
\<close>

definition resolve_mu_theta ::
  "env \<Rightarrow> string \<Rightarrow> real \<Rightarrow> real \<Rightarrow> real \<Rightarrow> real option \<Rightarrow> real option
     \<Rightarrow> error + (real option \<times> real option)" where
  "resolve_mu_theta ext model m_i T_e T_i mu theta =
     (if model = ''ji-held'' then
        (case (case mu of
                 Some v \<Rightarrow> Inr (Some v)
               | None \<Rightarrow>
                   (case py_div (m_e ext) m_i of None \<Rightarrow> Inl Not_finite | Some q \<Rightarrow> Inr (Some q))) of
           Inl err \<Rightarrow> Inl err
         | Inr mu \<Rightarrow>
             (case theta of
                Some v \<Rightarrow> Inr (mu, Some v)
              | None \<Rightarrow>
                  (case py_div T_e T_i of
                     None \<Rightarrow> Inl Not_finite
                   | Some q \<Rightarrow> Inr (mu, Some q))))
      else Inr (mu, theta))"

text \<open>
  \<^verbatim>\<open>transport_funcs[coeff](**args[coeff])\<close>: the function of the coefficient, called with
  the entries of its argument dictionary (lines 501 to 593).
\<close>

definition call_transport_func ::
  "env \<Rightarrow> real \<Rightarrow> real \<Rightarrow> real \<Rightarrow> real \<Rightarrow> string \<Rightarrow> string \<Rightarrow> zval \<Rightarrow> real \<Rightarrow> string \<Rightarrow> string
     \<Rightarrow> real \<Rightarrow> real option \<Rightarrow> real \<Rightarrow> real option \<Rightarrow> real \<Rightarrow> real \<Rightarrow> real option \<Rightarrow> real option
     \<Rightarrow> string \<Rightarrow> error + val" where
  "call_transport_func ext T_e n_e T_i n_i ion_particle e_particle Z B model field_orientation
       coulomb_log_ei V_ei coulomb_log_ii V_ii hall_e hall_i mu theta coeff =
     (if coeff = ''resistivity''
      then resistivity ext T_e n_e ion_particle e_particle Z B model field_orientation
             coulomb_log_ei V_ei hall_e
      else if coeff = ''thermoelectric_conductivity''
      then thermoelectric_conductivity ext T_e n_e e_particle Z B model field_orientation
             coulomb_log_ei V_ei hall_e
      else if coeff = ''ion_thermal_conductivity''
      then ion_thermal_conductivity ext T_i n_i ion_particle Z B model field_orientation
             coulomb_log_ii V_ii hall_i mu theta
      else if coeff = ''electron_thermal_conductivity''
      then electron_thermal_conductivity ext T_e n_e ion_particle e_particle Z B model
             field_orientation coulomb_log_ei V_ei hall_e mu theta
      else if coeff = ''ion_viscosity''
      then ion_viscosity ext T_i n_i ion_particle Z B model field_orientation
             coulomb_log_ii V_ii hall_i mu theta
      else if coeff = ''electron_viscosity''
      then electron_viscosity ext T_e n_e ion_particle e_particle Z B model field_orientation
             coulomb_log_ei V_ei hall_e mu theta
      else Inl (Unknown_key coeff))"

text \<open>
  The final loop (lines 595 to 598): each coefficient's function is invoked in turn and its
  result appended; the first exception ends the loop.
\<close>

fun transport_loop :: "(string \<Rightarrow> error + val) \<Rightarrow> string list \<Rightarrow> event list \<times> (error + val list)" where
  "transport_loop call [] = ([], Inr [])"
| "transport_loop call (coeff # rest) =
     (case call coeff of
        Inl err \<Rightarrow> ([Invoked coeff], Inl err)
      | Inr v \<Rightarrow>
          (case transport_loop call rest of
             (events, Inl err) \<Rightarrow> (Invoked coeff # events, Inl err)
           | (events, Inr transport_coeffs) \<Rightarrow> (Invoked coeff # events, Inr (v # transport_coeffs))))"

text \<open>
  \<^verbatim>\<open>classical_transport\<close>. The result has three parts: the elements of the caller's list
  \<^verbatim>\<open>coeffs\<close> when the call ends (the first loop of the function assigns to the elements of
  that list), the events of the call, and the exception raised or the tuple returned.
  Optional arguments are \<open>None\<close> when absent. The body is modelled; the decorator (which
  rejects wrong units and negative temperatures) is not.
\<close>

definition classical_transport ::
  "env \<Rightarrow> string list \<Rightarrow> real \<Rightarrow> real \<Rightarrow> real \<Rightarrow> real \<Rightarrow> string \<Rightarrow> zval option \<Rightarrow> real
     \<Rightarrow> string \<Rightarrow> string \<Rightarrow> real option \<Rightarrow> real option \<Rightarrow> real option \<Rightarrow> real option
     \<Rightarrow> real option \<Rightarrow> real option \<Rightarrow> real option \<Rightarrow> real option
     \<Rightarrow> string list \<times> event list \<times> (error + (val list \<times> real \<times> real \<times> real \<times> real))" where
  "classical_transport ext coeffs T_e n_e T_i n_i ion_particle Z B model field_orientation
       coulomb_log_ei V_ei coulomb_log_ii V_ii hall_e hall_i mu theta =
     (let coeffs = map lower coeffs;
          model = lower model;
          field_orientation = lower field_orientation
      in case validate_names coeffs model field_orientation of
        Some err \<Rightarrow> (coeffs, [], Inl err)
      | None \<Rightarrow>
     (case resolve_ion ext ion_particle Z of
        Inl err \<Rightarrow> (coeffs, [], Inl err)
      | Inr (m_i, Z) \<Rightarrow>
     (let e_particle = ''e'' in
      case resolve_coulomb_logs ext T_e n_e T_i ion_particle e_particle
             coulomb_log_ei V_ei coulomb_log_ii V_ii of
        (warned, Inl err) \<Rightarrow> (coeffs, warned, Inl err)
      | (warned, Inr (coulomb_log_ei, coulomb_log_ii)) \<Rightarrow>
     (case resolve_hall ext T_e n_e T_i n_i B ion_particle e_particle coulomb_log_ei V_ei
             coulomb_log_ii V_ii hall_e hall_i of
        Inl err \<Rightarrow> (coeffs, warned, Inl err)
      | Inr (hall_e, hall_i) \<Rightarrow>
     (case resolve_mu_theta ext model m_i T_e T_i mu theta of
        Inl err \<Rightarrow> (coeffs, warned, Inl err)
      | Inr (mu, theta) \<Rightarrow>
     (case transport_loop
             (call_transport_func ext T_e n_e T_i n_i ion_particle e_particle Z B model
                field_orientation coulomb_log_ei V_ei coulomb_log_ii V_ii hall_e hall_i mu theta)
             coeffs of
        (invoked, Inl err) \<Rightarrow> (coeffs, warned @ invoked, Inl err)
      | (invoked, Inr transport_coeffs) \<Rightarrow>
          (coeffs, warned @ invoked,
           Inr (transport_coeffs, hall_e, hall_i, coulomb_log_ei, coulomb_log_ii))))))))"

subsection \<open>Formulas of the specification\<close>

text \<open>
  The quartic denominator \<open>Delta(x) = x^4 + delta_1 x^2 + delta_0\<close> and the two rational
  forms of the specification's section 4.3, for comparison with the evaluators.
\<close>

definition Delta_quartic :: "real \<Rightarrow> real \<Rightarrow> real \<Rightarrow> real" where
  "Delta_quartic delta_1 delta_0 x = x ^ 4 + delta_1 * x ^ 2 + delta_0"

definition perp_form :: "real \<Rightarrow> real \<Rightarrow> real \<Rightarrow> real \<Rightarrow> real \<Rightarrow> real" where
  "perp_form gamma_1_prime gamma_0_prime delta_1 delta_0 x =
     (gamma_1_prime * x ^ 2 + gamma_0_prime) / Delta_quartic delta_1 delta_0 x"

definition cross_form :: "real \<Rightarrow> real \<Rightarrow> real \<Rightarrow> real \<Rightarrow> real \<Rightarrow> real" where
  "cross_form gamma_1_doubleprime gamma_0_doubleprime delta_1 delta_0 x =
     (gamma_1_doubleprime * x ^ 3 + gamma_0_doubleprime * x) / Delta_quartic delta_1 delta_0 x"

text \<open>
  The result for a field orientation, given the three components: a component for
  \<open>parallel\<close>/\<open>par\<close>, \<open>perpendicular\<close>/\<open>perp\<close> and \<open>cross\<close>, the array of the three for \<open>all\<close>,
  \<^verbatim>\<open>None\<close> for any other string.
\<close>

definition select_orientation :: "string \<Rightarrow> real \<Rightarrow> real \<Rightarrow> real \<Rightarrow> val" where
  "select_orientation field_orientation par perp cross =
     (if field_orientation = ''parallel'' \<or> field_orientation = ''par'' then Scalar par
      else if field_orientation = ''perpendicular'' \<or> field_orientation = ''perp'' then Scalar perp
      else if field_orientation = ''cross'' then Scalar cross
      else if field_orientation = ''all'' then Array [par, perp, cross]
      else NoneVal)"


subsection \<open>An environment for concrete runs\<close>

text \<open>
  Two species, \<open>e\<close> and \<open>p\<close>, with small numbers for masses and constants, a Debye length
  \<open>exp 10 / n\<close>, a Hall parameter equal to the field and collision rates equal to 1: chosen
  so that concrete calls evaluate to closed terms.
\<close>

definition example_env :: env where
  "example_env =
     \<lparr>ion_mass = (\<lambda>p. if p = ''e'' then Some 1 else if p = ''p'' then Some 6 else None),
      charge_state = (\<lambda>p. if p = ''e'' then Some (- 1) else if p = ''p'' then Some 1 else None),
      is_electron = (\<lambda>p. p = ''e''),
      Debye_length = (\<lambda>T n. Inr (exp 10 / n)),
      check_relativistic = (\<lambda>V. None),
      Hall_parameter = (\<lambda>n T B p1 p2 coulomb_log V. Inr B),
      electron_ion_collision_rate = (\<lambda>T n p coulomb_log V. Inr 1),
      ion_ion_collision_rate = (\<lambda>T n p coulomb_log V. Inr 1),
      k_B = 1, e_charge = 1, eps0 = 1, hbar = 6, m_e = 1\<rparr>"

text \<open>
  The warnings among the events of a call.
\<close>

fun is_warning :: "event \<Rightarrow> bool" where
  "is_warning (Strong_coupling name v) = True"
| "is_warning (Invoked coeff) = False"

section \<open>Properties\<close>

subsection \<open>check_Z\<close>

lemma match_loop_absent:
  "Z \<notin> set xs \<Longrightarrow> match_loop Z xs idx acc = acc"
  by (induction xs arbitrary: idx acc) auto

lemma match_loop_present:
  "Z \<in> set xs \<Longrightarrow>
     \<exists>i. match_loop Z xs idx acc = Some (idx + i) \<and> i < length xs \<and> xs ! i = Z
          \<and> (\<forall>j. i < j \<and> j < length xs \<longrightarrow> xs ! j \<noteq> Z)"
proof (induction xs arbitrary: idx acc)
  case Nil
  then show ?case by simp
next
  case (Cons x xs)
  show ?case
  proof (cases "Z \<in> set xs")
    case True
    from Cons.IH [OF True, of "Suc idx" "if Z = x then Some idx else acc"]
    obtain i where i: "match_loop Z xs (Suc idx) (if Z = x then Some idx else acc) = Some (Suc idx + i)"
      "i < length xs" "xs ! i = Z" "\<forall>j. i < j \<and> j < length xs \<longrightarrow> xs ! j \<noteq> Z"
      by blast
    have "\<forall>j. Suc i < j \<and> j < length (x # xs) \<longrightarrow> (x # xs) ! j \<noteq> Z"
    proof (intro allI impI)
      fix j assume j: "Suc i < j \<and> j < length (x # xs)"
      then obtain k where k: "j = Suc k" by (cases j) auto
      with j i(4) show "(x # xs) ! j \<noteq> Z" by simp
    qed
    with i show ?thesis
      by (intro exI [of _ "Suc i"]) simp
  next
    case False
    with Cons.prems have zx: "Z = x" by simp
    have "\<forall>j. 0 < j \<and> j < length (x # xs) \<longrightarrow> (x # xs) ! j \<noteq> Z"
    proof (intro allI impI)
      fix j assume j: "0 < j \<and> j < length (x # xs)"
      then obtain k where k: "j = Suc k" by (cases j) auto
      with j have "xs ! k \<in> set xs" by simp
      with False k show "(x # xs) ! j \<noteq> Z" by auto
    qed
    with zx False show ?thesis
      by (intro exI [of _ 0]) (simp add: match_loop_absent)
  qed
qed

lemma arbitrary_loop_absent:
  "ZArbitrary \<notin> set xs \<Longrightarrow> arbitrary_loop xs idx st = st"
  by (induction xs arbitrary: idx st) auto

lemma arbitrary_loop_present:
  "ZArbitrary \<in> set xs \<Longrightarrow>
     \<exists>i. arbitrary_loop xs idx st = (True, Some (idx + i)) \<and> i < length xs \<and> xs ! i = ZArbitrary"
proof (induction xs arbitrary: idx st)
  case Nil
  then show ?case by simp
next
  case (Cons x xs)
  show ?case
  proof (cases "ZArbitrary \<in> set xs")
    case True
    from Cons.IH [OF True, of "Suc idx" "if x = ZArbitrary then (True, Some idx) else st"]
    obtain i where "arbitrary_loop xs (Suc idx) (if x = ZArbitrary then (True, Some idx) else st)
        = (True, Some (Suc idx + i))" "i < length xs" "xs ! i = ZArbitrary"
      by blast
    then show ?thesis
      by (intro exI [of _ "Suc i"]) simp
  next
    case False
    with Cons.prems have "x = ZArbitrary" by simp
    with False show ?thesis
      by (intro exI [of _ 0]) (simp add: arbitrary_loop_absent)
  qed
qed

text \<open>
  C1. For every allowed-Z list and requested Z: when Z equals an entry of the list,
  \<open>check_Z\<close> returns the index of an entry equal to Z (the last one, when there are several);
  when no entry equals Z and the list holds the sentinel \<open>'arbitrary'\<close>, it returns an index
  of that sentinel; when no entry equals Z and there is no sentinel, it raises the
  PhysicsError that names Z and the calling function.
\<close>

theorem check_Z_cases:
  "(Z \<in> set allowed_Z \<longrightarrow>
      (\<exists>i. check_Z caller allowed_Z Z = Inr (Some i) \<and> i < length allowed_Z \<and> allowed_Z ! i = Z
           \<and> (\<forall>j. i < j \<and> j < length allowed_Z \<longrightarrow> allowed_Z ! j \<noteq> Z)))
   \<and> (Z \<notin> set allowed_Z \<and> ZArbitrary \<in> set allowed_Z \<longrightarrow>
      (\<exists>i. check_Z caller allowed_Z Z = Inr (Some i) \<and> i < length allowed_Z
           \<and> allowed_Z ! i = ZArbitrary))
   \<and> (Z \<notin> set allowed_Z \<and> ZArbitrary \<notin> set allowed_Z \<longrightarrow>
      check_Z caller allowed_Z Z = Inl (Z_not_available Z caller)
      \<and> class_of (Z_not_available Z caller) = PhysicsError)"
proof (intro conjI impI)
  assume "Z \<in> set allowed_Z"
  from match_loop_present [OF this, of 0 None]
  obtain i where i: "match_loop Z allowed_Z 0 None = Some i" "i < length allowed_Z"
    "allowed_Z ! i = Z" "\<forall>j. i < j \<and> j < length allowed_Z \<longrightarrow> allowed_Z ! j \<noteq> Z"
    by auto
  then have "check_Z caller allowed_Z Z = Inr (Some i)"
    by (simp add: check_Z_def split: prod.splits)
  with i show "\<exists>i. check_Z caller allowed_Z Z = Inr (Some i) \<and> i < length allowed_Z
      \<and> allowed_Z ! i = Z \<and> (\<forall>j. i < j \<and> j < length allowed_Z \<longrightarrow> allowed_Z ! j \<noteq> Z)"
    by blast
next
  assume a: "Z \<notin> set allowed_Z \<and> ZArbitrary \<in> set allowed_Z"
  then have m: "match_loop Z allowed_Z 0 None = None"
    by (simp add: match_loop_absent)
  from a arbitrary_loop_present [of allowed_Z 0 "(False, None)"]
  obtain i where i: "arbitrary_loop allowed_Z 0 (False, None) = (True, Some i)"
    "i < length allowed_Z" "allowed_Z ! i = ZArbitrary"
    by auto
  from m i(1) have "check_Z caller allowed_Z Z = Inr (Some i)"
    by (simp add: check_Z_def)
  with i show "\<exists>i. check_Z caller allowed_Z Z = Inr (Some i) \<and> i < length allowed_Z
      \<and> allowed_Z ! i = ZArbitrary"
    by blast
next
  assume a: "Z \<notin> set allowed_Z \<and> ZArbitrary \<notin> set allowed_Z"
  then show "check_Z caller allowed_Z Z = Inl (Z_not_available Z caller)"
    by (simp add: check_Z_def match_loop_absent arbitrary_loop_absent)
next
  show "class_of (Z_not_available Z caller) = PhysicsError" by simp
qed

theorem check_Z_cases_witness:
  "check_Z ''nondim_tc_e_ji_held'' [ZNum 1, ZNum 2, ZArbitrary] (ZNum 2) = Inr (Some 1)
   \<and> check_Z ''nondim_tc_e_ji_held'' [ZNum 1, ZNum 2, ZArbitrary] (ZNum 7) = Inr (Some 2)
   \<and> check_Z ''nondim_tc_e_braginskii'' [ZNum 1, ZNum 2, ZNum 3, ZNum 4, ZInf] (ZNum 7)
       = Inl (Z_not_available (ZNum 7) ''nondim_tc_e_braginskii'')"
proof (intro conjI)
  have "ZNum 2 \<in> set [ZNum 1, ZNum 2, ZArbitrary]" by simp
  with check_Z_cases [of "ZNum 2" "[ZNum 1, ZNum 2, ZArbitrary]" "''nondim_tc_e_ji_held''"]
  obtain i where i: "check_Z ''nondim_tc_e_ji_held'' [ZNum 1, ZNum 2, ZArbitrary] (ZNum 2) = Inr (Some i)"
    "i < length [ZNum 1, ZNum 2, ZArbitrary]" "[ZNum 1, ZNum 2, ZArbitrary] ! i = ZNum 2"
    by blast
  from i(2) have "i = 0 \<or> i = 1 \<or> i = 2" by auto
  with i(3) have "i = 1" by auto
  with i(1) show "check_Z ''nondim_tc_e_ji_held'' [ZNum 1, ZNum 2, ZArbitrary] (ZNum 2) = Inr (Some 1)"
    by simp
next
  have "ZNum 7 \<notin> set [ZNum 1, ZNum 2, ZArbitrary] \<and> ZArbitrary \<in> set [ZNum 1, ZNum 2, ZArbitrary]"
    by simp
  with check_Z_cases [of "ZNum 7" "[ZNum 1, ZNum 2, ZArbitrary]" "''nondim_tc_e_ji_held''"]
  obtain i where i: "check_Z ''nondim_tc_e_ji_held'' [ZNum 1, ZNum 2, ZArbitrary] (ZNum 7) = Inr (Some i)"
    "i < length [ZNum 1, ZNum 2, ZArbitrary]" "[ZNum 1, ZNum 2, ZArbitrary] ! i = ZArbitrary"
    by blast
  from i(2) have "i = 0 \<or> i = 1 \<or> i = 2" by auto
  with i(3) have "i = 2" by auto
  with i(1) show "check_Z ''nondim_tc_e_ji_held'' [ZNum 1, ZNum 2, ZArbitrary] (ZNum 7) = Inr (Some 2)"
    by simp
next
  have "ZNum 7 \<notin> set [ZNum 1, ZNum 2, ZNum 3, ZNum 4, ZInf]
      \<and> ZArbitrary \<notin> set [ZNum 1, ZNum 2, ZNum 3, ZNum 4, ZInf]"
    by simp
  with check_Z_cases [of "ZNum 7" "[ZNum 1, ZNum 2, ZNum 3, ZNum 4, ZInf]" "''nondim_tc_e_braginskii''"]
  show "check_Z ''nondim_tc_e_braginskii'' [ZNum 1, ZNum 2, ZNum 3, ZNum 4, ZInf] (ZNum 7)
      = Inl (Z_not_available (ZNum 7) ''nondim_tc_e_braginskii'')"
    by blast
qed

subsection \<open>The Braginskii evaluators\<close>

lemma check_Z_braginskii:
  "i < 5 \<Longrightarrow> check_Z caller braginskii_allowed_Z (braginskii_allowed_Z ! i) = Inr (Some i)"
proof -
  assume "i < 5"
  then have "i = 0 \<or> i = 1 \<or> i = 2 \<or> i = 3 \<or> i = 4" by auto
  then show ?thesis
    by (elim disjE) (simp_all add: check_Z_def braginskii_allowed_Z_def)
qed

lemma Delta_quartic_pos: "0 \<le> d1 \<Longrightarrow> 0 < d0 \<Longrightarrow> 0 < Delta_quartic d1 d0 x"
proof -
  assume a: "0 \<le> d1" "0 < d0"
  have "0 \<le> x ^ 4" by simp
  moreover have "0 \<le> d1 * x ^ 2" using a by simp
  ultimately show ?thesis using a unfolding Delta_quartic_def by linarith
qed

lemma braginskii_tables_pos:
  "i < 5 \<Longrightarrow> 0 \<le> tc_e_delta_1 ! i \<and> 0 < tc_e_delta_0 ! i \<and> 0 \<le> tec_delta_1 ! i
     \<and> 0 < tec_delta_0 ! i \<and> 0 \<le> resist_delta_1 ! i \<and> 0 < resist_delta_0 ! i"
proof -
  assume "i < 5"
  then have "i = 0 \<or> i = 1 \<or> i = 2 \<or> i = 3 \<or> i = 4" by auto
  then show ?thesis
    by (elim disjE) (simp_all add: tc_e_delta_0_def tc_e_delta_1_def tec_delta_0_def
        tec_delta_1_def resist_delta_0_def resist_delta_1_def)
qed

lemma tc_e_braginskii_form:
  "i < 5 \<Longrightarrow> nondim_tc_e_braginskii x (braginskii_allowed_Z ! i) fo =
     Inr (select_orientation fo (tc_e_gamma_0_prime ! i / tc_e_delta_0 ! i)
        (perp_form (tc_e_gamma_1_prime ! i) (tc_e_gamma_0_prime ! i)
           (tc_e_delta_1 ! i) (tc_e_delta_0 ! i) x)
        (cross_form (tc_e_gamma_1_doubleprime ! i) (tc_e_gamma_0_doubleprime ! i)
           (tc_e_delta_1 ! i) (tc_e_delta_0 ! i) x))"
  by (simp add: nondim_tc_e_braginskii_def check_Z_braginskii select_orientation_def
      perp_form_def cross_form_def Delta_quartic_def Let_def)

lemma tec_braginskii_form:
  "i < 5 \<Longrightarrow> nondim_tec_braginskii x (braginskii_allowed_Z ! i) fo =
     Inr (select_orientation fo (tec_beta_0_prime ! i / tec_delta_0 ! i)
        (perp_form (tec_beta_1_prime ! i) (tec_beta_0_prime ! i)
           (tec_delta_1 ! i) (tec_delta_0 ! i) x)
        (cross_form (tec_beta_1_doubleprime ! i) (tec_beta_0_doubleprime ! i)
           (tec_delta_1 ! i) (tec_delta_0 ! i) x))"
  by (simp add: nondim_tec_braginskii_def check_Z_braginskii select_orientation_def
      perp_form_def cross_form_def Delta_quartic_def Let_def)

lemma resist_braginskii_form:
  "i < 5 \<Longrightarrow> nondim_resist_braginskii x (braginskii_allowed_Z ! i) fo =
     Inr (select_orientation fo (1 - resist_alpha_0_prime ! i / resist_delta_0 ! i)
        (1 - perp_form (resist_alpha_1_prime ! i) (resist_alpha_0_prime ! i)
               (resist_delta_1 ! i) (resist_delta_0 ! i) x)
        (cross_form (resist_alpha_1_doubleprime ! i) (resist_alpha_0_doubleprime ! i)
           (resist_delta_1 ! i) (resist_delta_0 ! i) x))"
  by (simp add: nondim_resist_braginskii_def check_Z_braginskii select_orientation_def
      perp_form_def cross_form_def Delta_quartic_def Let_def)

lemma tc_i_braginskii_form:
  "nondim_tc_i_braginskii x fo =
     Inr (select_orientation fo 3.906 (perp_form 2.0 2.645 2.70 0.677 x)
        (cross_form 2.5 4.65 2.70 0.677 x))"
  by (simp add: nondim_tc_i_braginskii_def select_orientation_def perp_form_def
      cross_form_def Delta_quartic_def Let_def)

text \<open>
  C2, as stated, fails for the resistivity: its perpendicular component is not
  \<open>(alpha_1' x^2 + alpha_0') / Delta(x)\<close>. At Z = 1 (table index 0) and x = 0 the evaluator
  returns \<open>1 - 1.837 / 3.7703\<close>, the form of the claim is \<open>1.837 / 3.7703\<close>.
\<close>

theorem resist_braginskii_perp_counterexample:
  "nondim_resist_braginskii 0 (ZNum 1) ''perpendicular''
     \<noteq> Inr (Scalar (perp_form (resist_alpha_1_prime ! 0) (resist_alpha_0_prime ! 0)
                       (resist_delta_1 ! 0) (resist_delta_0 ! 0) 0))
   \<and> nondim_resist_braginskii 0 (ZNum 1) ''perpendicular'' = Inr (Scalar (1 - 1.837 / 3.7703))"
  by (simp add: nondim_resist_braginskii_def check_Z_def braginskii_allowed_Z_def perp_form_def
      Delta_quartic_def resist_alpha_1_prime_def resist_alpha_0_prime_def resist_delta_1_def
      resist_delta_0_def)

text \<open>
  C2, amended. For every index \<open>i\<close> of the table of allowed Z values, every Hall parameter
  \<open>x\<close> and every field orientation:
  \<^item> the electron thermal conductivity and the thermoelectric conductivity have the
    parallel component \<open>gamma_0' / delta_0\<close> (no \<open>x\<close> in it), the perpendicular component
    \<open>(gamma_1' x^2 + gamma_0') / Delta(x)\<close> and the cross component
    \<open>(gamma_1'' x^3 + gamma_0'' x) / Delta(x)\<close>;
  \<^item> the ion thermal conductivity has the constant parallel component 3.906 and the same
    perpendicular and cross forms with its fixed constants;
  \<^item> the resistivity has the parallel component \<open>1 - alpha_0' / delta_0\<close>, the perpendicular
    component \<open>1 - (alpha_1' x^2 + alpha_0') / Delta(x)\<close> and the cross component
    \<open>(alpha_1'' x^3 + alpha_0'' x) / Delta(x)\<close>;
  \<^item> \<open>Delta(x) = x^4 + delta_1 x^2 + delta_0\<close> is positive, so no division fails.
\<close>

theorem braginskii_components:
  "i < 5 \<Longrightarrow>
     nondim_tc_e_braginskii x (braginskii_allowed_Z ! i) fo =
       Inr (select_orientation fo (tc_e_gamma_0_prime ! i / tc_e_delta_0 ! i)
          (perp_form (tc_e_gamma_1_prime ! i) (tc_e_gamma_0_prime ! i)
             (tc_e_delta_1 ! i) (tc_e_delta_0 ! i) x)
          (cross_form (tc_e_gamma_1_doubleprime ! i) (tc_e_gamma_0_doubleprime ! i)
             (tc_e_delta_1 ! i) (tc_e_delta_0 ! i) x))
   \<and> nondim_tec_braginskii x (braginskii_allowed_Z ! i) fo =
       Inr (select_orientation fo (tec_beta_0_prime ! i / tec_delta_0 ! i)
          (perp_form (tec_beta_1_prime ! i) (tec_beta_0_prime ! i)
             (tec_delta_1 ! i) (tec_delta_0 ! i) x)
          (cross_form (tec_beta_1_doubleprime ! i) (tec_beta_0_doubleprime ! i)
             (tec_delta_1 ! i) (tec_delta_0 ! i) x))
   \<and> nondim_tc_i_braginskii x fo =
       Inr (select_orientation fo 3.906 (perp_form 2.0 2.645 2.70 0.677 x)
          (cross_form 2.5 4.65 2.70 0.677 x))
   \<and> nondim_resist_braginskii x (braginskii_allowed_Z ! i) fo =
       Inr (select_orientation fo (1 - resist_alpha_0_prime ! i / resist_delta_0 ! i)
          (1 - perp_form (resist_alpha_1_prime ! i) (resist_alpha_0_prime ! i)
                 (resist_delta_1 ! i) (resist_delta_0 ! i) x)
          (cross_form (resist_alpha_1_doubleprime ! i) (resist_alpha_0_doubleprime ! i)
             (resist_delta_1 ! i) (resist_delta_0 ! i) x))
   \<and> 0 < Delta_quartic (tc_e_delta_1 ! i) (tc_e_delta_0 ! i) x
   \<and> 0 < Delta_quartic (tec_delta_1 ! i) (tec_delta_0 ! i) x
   \<and> 0 < Delta_quartic 2.70 0.677 x
   \<and> 0 < Delta_quartic (resist_delta_1 ! i) (resist_delta_0 ! i) x"
proof -
  assume i: "i < 5"
  have "0 < Delta_quartic 2.70 0.677 x"
    by (rule Delta_quartic_pos) simp_all
  with i braginskii_tables_pos [OF i] show ?thesis
    by (simp add: tc_e_braginskii_form tec_braginskii_form tc_i_braginskii_form
        resist_braginskii_form Delta_quartic_pos)
qed

theorem braginskii_components_witness:
  "nondim_tc_e_braginskii 2 (ZNum 1) ''all'' =
     Inr (Array [11.92 / 3.7703,
                 (4.664 * 2 ^ 2 + 11.92) / (2 ^ 4 + 14.79 * 2 ^ 2 + 3.7703),
                 (2.5 * 2 ^ 3 + 21.67 * 2) / (2 ^ 4 + 14.79 * 2 ^ 2 + 3.7703)])
   \<and> nondim_resist_braginskii 2 (ZNum 1) ''all'' =
     Inr (Array [1 - 1.837 / 3.7703,
                 1 - (6.416 * 2 ^ 2 + 1.837) / (2 ^ 4 + 14.79 * 2 ^ 2 + 3.7703),
                 (1.704 * 2 ^ 3 + 0.7796 * 2) / (2 ^ 4 + 14.79 * 2 ^ 2 + 3.7703)])"
  using braginskii_components [of 0 2 "''all''"]
  by (simp add: braginskii_allowed_Z_def select_orientation_def perp_form_def cross_form_def
      Delta_quartic_def tc_e_delta_0_def tc_e_delta_1_def tc_e_gamma_1_prime_def
      tc_e_gamma_0_prime_def tc_e_gamma_1_doubleprime_def tc_e_gamma_0_doubleprime_def
      resist_delta_0_def resist_delta_1_def resist_alpha_1_prime_def resist_alpha_0_prime_def
      resist_alpha_1_doubleprime_def resist_alpha_0_doubleprime_def)

subsection \<open>The orientation "all"\<close>




subsection \<open>The placeholder of the dispatch functions\<close>

text \<open>
  C6. The four dispatch functions return the number 1, and raise nothing, for every
  combination that no evaluator covers: \<open>nondim_resisitivity\<close>, \<open>nondim_te_conductivity\<close>
  and the electron branch of \<open>nondim_thermal_conductivity\<close> for a model other than
  \<open>spitzer-harm\<close>, \<open>spitzer\<close>, \<open>braginskii\<close> and \<open>ji-held\<close>; \<open>nondim_viscosity\<close> (both
  species) and the ion branch of \<open>nondim_thermal_conductivity\<close> for a model other than
  \<open>braginskii\<close> and \<open>ji-held\<close>, so in particular for the Spitzer-Harm model.
\<close>

theorem dispatch_placeholder:
  "(model \<noteq> ''spitzer-harm'' \<and> model \<noteq> ''spitzer'' \<and> model \<noteq> ''braginskii''
      \<and> model \<noteq> ''ji-held'' \<longrightarrow>
      nondim_resisitivity hall Z particle model fo = Inr (Scalar 1)
      \<and> nondim_te_conductivity hall Z particle model fo = Inr (Scalar 1)
      \<and> nondim_thermal_conductivity ext hall Z particle model fo mu theta = Inr (Scalar 1))
   \<and> (model \<noteq> ''braginskii'' \<and> model \<noteq> ''ji-held'' \<longrightarrow>
      nondim_viscosity ext hall Z particle model fo mu theta = Inr (Scalar 1)
      \<and> (\<not> is_electron ext particle \<longrightarrow>
           nondim_thermal_conductivity ext hall Z particle model fo mu theta = Inr (Scalar 1)))"
  by (simp add: nondim_resisitivity_def nondim_te_conductivity_def
      nondim_thermal_conductivity_def nondim_viscosity_def)

theorem dispatch_placeholder_witness:
  "nondim_thermal_conductivity example_env 3 (ZNum 1) ''p'' ''spitzer-harm'' ''parallel'' None None
     = Inr (Scalar 1)
   \<and> nondim_viscosity example_env 3 (ZNum 1) ''p'' ''spitzer-harm'' ''parallel'' None None
     = Inr (Scalar 1)
   \<and> nondim_resisitivity 3 (ZNum 1) ''e'' ''epperlein-haines'' ''parallel'' = Inr (Scalar 1)
   \<and> nondim_te_conductivity 3 (ZNum 1) ''e'' ''epperlein-haines'' ''parallel'' = Inr (Scalar 1)"
proof -
  have ion: "\<not> is_electron example_env ''p''"
    by (simp add: example_env_def)
  have m1: "''spitzer-harm'' \<noteq> ''braginskii'' \<and> ''spitzer-harm'' \<noteq> ''ji-held''"
    by simp
  have m2: "''epperlein-haines'' \<noteq> ''spitzer-harm'' \<and> ''epperlein-haines'' \<noteq> ''spitzer''
      \<and> ''epperlein-haines'' \<noteq> ''braginskii'' \<and> ''epperlein-haines'' \<noteq> ''ji-held''"
    by simp
  from dispatch_placeholder [of "''spitzer-harm''" 3 "ZNum 1" "''p''" "''parallel''" example_env
      None None] ion m1
  have a: "nondim_thermal_conductivity example_env 3 (ZNum 1) ''p'' ''spitzer-harm'' ''parallel''
        None None = Inr (Scalar 1)
      \<and> nondim_viscosity example_env 3 (ZNum 1) ''p'' ''spitzer-harm'' ''parallel'' None None
        = Inr (Scalar 1)"
    by blast
  from dispatch_placeholder [of "''epperlein-haines''" 3 "ZNum 1" "''e''" "''parallel''"
      example_env None None] m2
  have b: "nondim_resisitivity 3 (ZNum 1) ''e'' ''epperlein-haines'' ''parallel'' = Inr (Scalar 1)
      \<and> nondim_te_conductivity 3 (ZNum 1) ''e'' ''epperlein-haines'' ''parallel'' = Inr (Scalar 1)"
    by blast
  from a b show ?thesis by blast
qed

subsection \<open>Viscosity in physical units\<close>

text \<open>
  C7. For the ion and for the electron viscosity: when the nondimensional viscosity is an
  array of (at least) five components and the collision rate is not zero, the result is the
  array of five numbers \<open>eta_hat[k] * (n * k_B * T * tau)\<close> with \<open>tau = 1 / rate\<close>, where
  components 1 and 2 are divided by the square of the Hall parameter and components 3 and 4
  by the Hall parameter, unless \<open>|hall| \<le> 1e-8\<close> (the test \<^verbatim>\<open>np.isclose(hall, 0, rtol=1e-8)\<close>
  with numpy's default \<^verbatim>\<open>atol=1e-8\<close>): then the result is that of the first branch of the
  source, in which no component is divided.
\<close>

theorem viscosity_dimensionalization:
  "(nondim_viscosity ext hall_i Z ion_particle model fo mu theta = Inr (Array eta_hat_i)
      \<and> 5 \<le> length eta_hat_i
      \<and> ion_ion_collision_rate ext T_i n_i ion_particle coulomb_log_ii V_ii = Inr rate_i
      \<and> rate_i \<noteq> 0 \<longrightarrow>
      ion_viscosity ext T_i n_i ion_particle Z B model fo coulomb_log_ii V_ii hall_i mu theta =
        Inr (Array
          (if \<bar>hall_i\<bar> \<le> 1 / 10 ^ 8
           then [eta_hat_i ! 0 * (n_i * k_B ext * T_i * (1 / rate_i)),
                 eta_hat_i ! 1 * (n_i * k_B ext * T_i * (1 / rate_i)),
                 eta_hat_i ! 2 * (n_i * k_B ext * T_i * (1 / rate_i)),
                 eta_hat_i ! 3 * (n_i * k_B ext * T_i * (1 / rate_i)),
                 eta_hat_i ! 4 * (n_i * k_B ext * T_i * (1 / rate_i))]
           else [eta_hat_i ! 0 * (n_i * k_B ext * T_i * (1 / rate_i)),
                 eta_hat_i ! 1 * (n_i * k_B ext * T_i * (1 / rate_i)) / hall_i ^ 2,
                 eta_hat_i ! 2 * (n_i * k_B ext * T_i * (1 / rate_i)) / hall_i ^ 2,
                 eta_hat_i ! 3 * (n_i * k_B ext * T_i * (1 / rate_i)) / hall_i,
                 eta_hat_i ! 4 * (n_i * k_B ext * T_i * (1 / rate_i)) / hall_i])))
   \<and> (nondim_viscosity ext hall_e Z e_particle model fo mu theta = Inr (Array eta_hat_e)
      \<and> 5 \<le> length eta_hat_e
      \<and> electron_ion_collision_rate ext T_e n_e ion_particle coulomb_log_ei V_ei = Inr rate_e
      \<and> rate_e \<noteq> 0 \<longrightarrow>
      electron_viscosity ext T_e n_e ion_particle e_particle Z B model fo coulomb_log_ei V_ei
          hall_e mu theta =
        Inr (Array
          (if \<bar>hall_e\<bar> \<le> 1 / 10 ^ 8
           then [eta_hat_e ! 0 * (n_e * k_B ext * T_e * (1 / rate_e)),
                 eta_hat_e ! 1 * (n_e * k_B ext * T_e * (1 / rate_e)),
                 eta_hat_e ! 2 * (n_e * k_B ext * T_e * (1 / rate_e)),
                 eta_hat_e ! 3 * (n_e * k_B ext * T_e * (1 / rate_e)),
                 eta_hat_e ! 4 * (n_e * k_B ext * T_e * (1 / rate_e))]
           else [eta_hat_e ! 0 * (n_e * k_B ext * T_e * (1 / rate_e)),
                 eta_hat_e ! 1 * (n_e * k_B ext * T_e * (1 / rate_e)) / hall_e ^ 2,
                 eta_hat_e ! 2 * (n_e * k_B ext * T_e * (1 / rate_e)) / hall_e ^ 2,
                 eta_hat_e ! 3 * (n_e * k_B ext * T_e * (1 / rate_e)) / hall_e,
                 eta_hat_e ! 4 * (n_e * k_B ext * T_e * (1 / rate_e)) / hall_e])))"
  by (simp add: ion_viscosity_def electron_viscosity_def collision_time_def py_div_def
      five_components_def np_isclose_def)

lemma visc_i_at_0:
  "nondim_viscosity example_env 0 (ZNum 1) ''p'' ''braginskii'' ''parallel'' None None
     = Inr (Array [0.96, 2.23 / 2.33, 2.23 / 2.33, 0, 0])"
  by (simp add: nondim_viscosity_def example_env_def nondim_visc_i_braginskii_def
      visc_i_braginskii_f_eta_2_def visc_i_braginskii_f_eta_4_def)

lemma visc_e_at_2:
  "nondim_viscosity example_env 2 (ZNum 1) ''e'' ''braginskii'' ''parallel'' None None
     = Inr (Array [0.733,
                   (2.05 * 4 ^ 2 + 8.50) / (4 ^ 4 + 13.8 * 4 ^ 2 + 11.6),
                   (2.05 * 2 ^ 2 + 8.50) / (2 ^ 4 + 13.8 * 2 ^ 2 + 11.6),
                   (4 ^ 3 + 7.91 * 4) / (4 ^ 4 + 13.8 * 4 ^ 2 + 11.6),
                   (2 ^ 3 + 7.91 * 2) / (2 ^ 4 + 13.8 * 2 ^ 2 + 11.6)])"
  by (simp add: nondim_viscosity_def example_env_def nondim_visc_e_braginskii_def check_Z_def
      visc_e_braginskii_f_eta_2_def visc_e_braginskii_f_eta_4_def)

theorem viscosity_dimensionalization_witness:
  "ion_viscosity example_env 3 5 ''p'' (ZNum 1) 0 ''braginskii'' ''parallel'' 10 None 0 None None
     = Inr (Array [0.96 * 15, 2.23 / 2.33 * 15, 2.23 / 2.33 * 15, 0, 0])
   \<and> electron_viscosity example_env 3 5 ''p'' ''e'' (ZNum 1) 0 ''braginskii'' ''parallel'' 10 None
       2 None None
     = Inr (Array [0.733 * 15,
                   (2.05 * 4 ^ 2 + 8.50) / (4 ^ 4 + 13.8 * 4 ^ 2 + 11.6) * 15 / 2 ^ 2,
                   (2.05 * 2 ^ 2 + 8.50) / (2 ^ 4 + 13.8 * 2 ^ 2 + 11.6) * 15 / 2 ^ 2,
                   (4 ^ 3 + 7.91 * 4) / (4 ^ 4 + 13.8 * 4 ^ 2 + 11.6) * 15 / 2,
                   (2 ^ 3 + 7.91 * 2) / (2 ^ 4 + 13.8 * 2 ^ 2 + 11.6) * 15 / 2])"
proof -
  have rate: "ion_ion_collision_rate example_env 3 5 ''p'' 10 None = Inr 1"
    "electron_ion_collision_rate example_env 3 5 ''p'' 10 None = Inr 1"
    by (simp_all add: example_env_def)
  have kb: "k_B example_env = 1" by (simp add: example_env_def)
  from viscosity_dimensionalization [where ext = example_env and hall_i = 0 and Z = "ZNum 1"
      and ion_particle = "''p''" and model = "''braginskii''" and fo = "''parallel''"
      and mu = None and theta = None and T_i = 3 and n_i = 5 and coulomb_log_ii = 10
      and V_ii = None and rate_i = 1 and B = 0
      and eta_hat_i = "[0.96, 2.23 / 2.33, 2.23 / 2.33, 0, 0]"]
    visc_i_at_0 rate kb
  have a: "ion_viscosity example_env 3 5 ''p'' (ZNum 1) 0 ''braginskii'' ''parallel'' 10 None 0
      None None = Inr (Array [0.96 * 15, 2.23 / 2.33 * 15, 2.23 / 2.33 * 15, 0, 0])"
    by simp
  from viscosity_dimensionalization [where ext = example_env and hall_e = 2 and Z = "ZNum 1"
      and ion_particle = "''p''" and e_particle = "''e''" and model = "''braginskii''"
      and fo = "''parallel''"
      and mu = None and theta = None and T_e = 3 and n_e = 5 and coulomb_log_ei = 10
      and V_ei = None and rate_e = 1 and B = 0
      and eta_hat_e = "[0.733,
                   (2.05 * 4 ^ 2 + 8.50) / (4 ^ 4 + 13.8 * 4 ^ 2 + 11.6),
                   (2.05 * 2 ^ 2 + 8.50) / (2 ^ 4 + 13.8 * 2 ^ 2 + 11.6),
                   (4 ^ 3 + 7.91 * 4) / (4 ^ 4 + 13.8 * 4 ^ 2 + 11.6),
                   (2 ^ 3 + 7.91 * 2) / (2 ^ 4 + 13.8 * 2 ^ 2 + 11.6)]"]
    visc_e_at_2 rate kb
  have b: "electron_viscosity example_env 3 5 ''p'' ''e'' (ZNum 1) 0 ''braginskii'' ''parallel''
      10 None 2 None None
     = Inr (Array [0.733 * 15,
                   (2.05 * 4 ^ 2 + 8.50) / (4 ^ 4 + 13.8 * 4 ^ 2 + 11.6) * 15 / 2 ^ 2,
                   (2.05 * 2 ^ 2 + 8.50) / (2 ^ 4 + 13.8 * 2 ^ 2 + 11.6) * 15 / 2 ^ 2,
                   (4 ^ 3 + 7.91 * 4) / (4 ^ 4 + 13.8 * 4 ^ 2 + 11.6) * 15 / 2,
                   (2 ^ 3 + 7.91 * 2) / (2 ^ 4 + 13.8 * 2 ^ 2 + 11.6) * 15 / 2])"
    by simp
  from a b show ?thesis by blast
qed


subsection \<open>The Coulomb logarithm\<close>

lemma b_min_loop_max:
  "length bp = length bd \<Longrightarrow> b_min_loop bp bd = map2 max bp bd"
  by (induction bp bd rule: b_min_loop.induct) auto

text \<open>
  C3. For a temperature \<open>T > 0\<close>, a pair of particles whose masses (positive) and charge
  states the species database resolves, a positive Debye length \<open>b_max\<close> at \<open>(T, n_e)\<close>,
  positive constants, a relative velocity that is positive when supplied, and a relativity
  check that does not raise: \<open>Coulomb_logarithm\<close> returns \<open>ln (b_max / b_min)\<close>, where \<open>b_min\<close>
  is the maximum of \<open>b_perp = q1 q2 / (4 pi eps0 m_r V^2)\<close> (with the absolute charges
  \<open>q = |e Z|\<close>) and \<open>b_deBroglie = hbar / (2 m_r V)\<close>, and \<open>m_r = m1 m2 / (m1 + m2)\<close>. When no
  velocity is supplied, the velocity used satisfies \<open>m_r V^2 = 3 k_B T\<close>. The loop that
  builds \<open>b_min\<close> computes the elementwise maximum of two arrays of one size.
\<close>

theorem Coulomb_logarithm_formula:
  fixes ext :: env and T n_e m1 m2 b_max :: real and V :: "real option" and z1 z2 :: int
    and p1 p2 :: string
  defines "m_r \<equiv> m1 * m2 / (m1 + m2)"
  defines "V_rel \<equiv> (case V of Some v \<Rightarrow> v | None \<Rightarrow> sqrt (3 * k_B ext * T / m_r))"
  defines "b_perp \<equiv> \<bar>e_charge ext * of_int z1\<bar> * \<bar>e_charge ext * of_int z2\<bar>
                      / (4 * pi * eps0 ext * m_r * V_rel ^ 2)"
  defines "b_deBroglie \<equiv> hbar ext / (2 * m_r * V_rel)"
  assumes res: "ion_mass ext p1 = Some m1" "ion_mass ext p2 = Some m2"
      "charge_state ext p1 = Some z1" "charge_state ext p2 = Some z2"
    and debye: "Debye_length ext T n_e = Inr b_max"
    and rel: "check_relativistic ext V_rel = None"
    and pos: "0 < m1" "0 < m2" "0 < T" "0 < k_B ext" "0 < eps0 ext" "0 < hbar ext" "0 < b_max"
    and vpos: "case V of Some v \<Rightarrow> 0 < v | None \<Rightarrow> True"
  shows "Coulomb_logarithm ext T n_e [p1, p2] V = Inr (ln (b_max / max b_perp b_deBroglie))
     \<and> (V = None \<longrightarrow> m_r * V_rel ^ 2 = 3 * k_B ext * T)
     \<and> (\<forall>bp bd. length bp = length bd \<longrightarrow> b_min_loop bp bd = map2 max bp bd)"
proof -
  have mr: "0 < m_r" using pos by (simp add: m_r_def)
  have sum: "m1 + m2 \<noteq> 0" using pos by simp
  have q: "0 < 3 * k_B ext * T / m_r" using pos mr by simp
  have V: "0 < V_rel"
    using vpos q by (cases V) (simp_all add: V_rel_def)
  have red: "py_div (m1 * m2) (m1 + m2) = Some m_r"
    using sum by (simp add: py_div_def m_r_def)
  have Vres: "(case V of Some v \<Rightarrow> Inr v
            | None \<Rightarrow> (case py_div (3 * k_B ext * T) m_r of None \<Rightarrow> Inl Not_finite
                 | Some q \<Rightarrow> if q < 0 then Inl Not_finite else Inr (sqrt q))) = Inr V_rel"
    using q mr by (cases V) (simp_all add: V_rel_def py_div_def)
  have d1: "4 * pi * eps0 ext * m_r * V_rel ^ 2 \<noteq> 0" using pos mr V by simp
  have d2: "2 * m_r * V_rel \<noteq> 0" using mr V by simp
  have bp: "py_div (\<bar>e_charge ext * of_int z1\<bar> * \<bar>e_charge ext * of_int z2\<bar>)
      (4 * pi * eps0 ext * m_r * V_rel ^ 2) = Some b_perp"
    using d1 by (simp only: py_div_def b_perp_def if_False)
  have bdB: "py_div (hbar ext) (2 * m_r * V_rel) = Some b_deBroglie"
    using d2 by (simp only: py_div_def b_deBroglie_def if_False)
  have bd: "0 < b_deBroglie" using pos mr V by (simp add: b_deBroglie_def)
  have bmin: "b_min_loop [b_perp] [b_deBroglie] ! 0 = max b_perp b_deBroglie"
    by (simp add: max_def)
  have mx: "0 < max b_perp b_deBroglie" using bd by (simp add: max_def)
  then have ratio: "0 < b_max / max b_perp b_deBroglie" using pos by simp
  have fin: "py_div b_max (max b_perp b_deBroglie) = Some (b_max / max b_perp b_deBroglie)"
    using mx by (simp add: py_div_def)
  have main: "Coulomb_logarithm ext T n_e [p1, p2] V = Inr (ln (b_max / max b_perp b_deBroglie))"
  proof -
    have len: "length [p1, p2] = 2" and n0: "[p1, p2] ! 0 = p1" and n1: "[p1, p2] ! 1 = p2"
      by simp_all
    have nle: "\<not> b_max / max b_perp b_deBroglie \<le> 0" using ratio by simp
    show ?thesis
      unfolding Coulomb_logarithm_def
      by (simp only: Let_def len n0 n1 res debye rel red Vres bp bdB bmin fin nle option.case
          sum.case if_False simp_thms)
  qed
  have eq: "V = None \<longrightarrow> m_r * V_rel ^ 2 = 3 * k_B ext * T"
  proof
    assume "V = None"
    then have "V_rel = sqrt (3 * k_B ext * T / m_r)" by (simp add: V_rel_def)
    then have "V_rel ^ 2 = 3 * k_B ext * T / m_r" using q by simp
    then show "m_r * V_rel ^ 2 = 3 * k_B ext * T" using mr by simp
  qed
  from main eq b_min_loop_max show ?thesis by blast
qed


lemma inv_pi_le: "1 / (12 * pi) \<le> 1" "1 / (48 * pi) \<le> 1 / 2"
proof -
  have "2 \<le> pi" by (rule pi_ge_two)
  then have a: "1 \<le> 12 * pi" and b: "2 \<le> 48 * pi" by simp_all
  from a show "1 / (12 * pi) \<le> 1" by simp
  from b have "1 / (48 * pi) \<le> 1 / 2"
    by (intro divide_left_mono) simp_all
  then show "1 / (48 * pi) \<le> 1 / 2" .
qed

theorem Coulomb_logarithm_formula_witness:
  "Coulomb_logarithm example_env 1 1 [''p'', ''p''] None = Inr 10
   \<and> Coulomb_logarithm example_env 1 1 [''p'', ''p''] (Some 2) = Inr (ln (exp 10 / (1 / 2)))"
proof -
  have a: "Coulomb_logarithm example_env 1 1 [''p'', ''p''] None
      = Inr (ln (exp 10 / max (1 / (12 * pi)) 1))"
    using Coulomb_logarithm_formula [where ext = example_env and T = 1 and n_e = 1
        and ?p1.0 = "''p''" and ?p2.0 = "''p''" and V = None and ?m1.0 = 6 and ?m2.0 = 6
        and ?z1.0 = 1 and ?z2.0 = 1 and b_max = "exp 10"]
    by (simp add: example_env_def)
  have b: "Coulomb_logarithm example_env 1 1 [''p'', ''p''] (Some 2)
      = Inr (ln (exp 10 / max (1 / (48 * pi)) (1 / 2)))"
    using Coulomb_logarithm_formula [where ext = example_env and T = 1 and n_e = 1
        and ?p1.0 = "''p''" and ?p2.0 = "''p''" and V = "Some 2" and ?m1.0 = 6 and ?m2.0 = 6
        and ?z1.0 = 1 and ?z2.0 = 1 and b_max = "exp 10"]
    by (simp add: example_env_def)
  from a b inv_pi_le show ?thesis
    by (simp add: max_def)
qed


subsection \<open>classical_transport\<close>


lemma transport_loop_no_warning:
  "filter is_warning (fst (transport_loop call cs)) = []"
  by (induction cs) (auto split: sum.splits prod.splits)

lemma transport_loop_events:
  "transport_loop call cs = (events, r) \<Longrightarrow> filter is_warning events = []"
  using transport_loop_no_warning [of call cs] by simp

lemma classical_transport_after_logs:
  assumes "validate_names (map lower coeffs) (lower model) (lower fo) = None"
    and "resolve_ion ext ion_particle Z = Inr (m_i, Z_res)"
    and "resolve_coulomb_logs ext T_e n_e T_i ion_particle ''e''
           coulomb_log_ei V_ei coulomb_log_ii V_ii = (warned, Inl err)"
  shows "classical_transport ext coeffs T_e n_e T_i n_i ion_particle Z B model fo
          coulomb_log_ei V_ei coulomb_log_ii V_ii hall_e hall_i mu theta
         = (map lower coeffs, warned, Inl err)"
  using assms by (simp add: classical_transport_def Let_def)

lemma classical_transport_goes_on:
  assumes "validate_names (map lower coeffs) (lower model) (lower fo) = None"
    and "resolve_ion ext ion_particle Z = Inr (m_i, Z_res)"
    and "resolve_coulomb_logs ext T_e n_e T_i ion_particle ''e''
           coulomb_log_ei V_ei coulomb_log_ii V_ii = (warned, Inr (lei, lii))"
  shows "classical_transport ext coeffs T_e n_e T_i n_i ion_particle Z B model fo
          coulomb_log_ei V_ei coulomb_log_ii V_ii hall_e hall_i mu theta
         = (case resolve_hall ext T_e n_e T_i n_i B ion_particle ''e'' lei V_ei lii V_ii
                   hall_e hall_i of
              Inl err \<Rightarrow> (map lower coeffs, warned, Inl err)
            | Inr (hall_e_res, hall_i_res) \<Rightarrow>
                (case resolve_mu_theta ext (lower model) m_i T_e T_i mu theta of
                   Inl err \<Rightarrow> (map lower coeffs, warned, Inl err)
                 | Inr (mu_res, theta_res) \<Rightarrow>
                     (case transport_loop
                             (call_transport_func ext T_e n_e T_i n_i ion_particle ''e'' Z_res
                                B (lower model) (lower fo) lei V_ei lii V_ii
                                hall_e_res hall_i_res mu_res theta_res)
                             (map lower coeffs) of
                        (invoked, Inl err) \<Rightarrow> (map lower coeffs, warned @ invoked, Inl err)
                      | (invoked, Inr transport_coeffs) \<Rightarrow>
                          (map lower coeffs, warned @ invoked,
                           Inr (transport_coeffs, hall_e_res, hall_i_res, lei, lii)))))"
  using assms
  by (simp add: classical_transport_def Let_def split: sum.splits prod.splits)

lemma classical_transport_warnings:
  assumes "validate_names (map lower coeffs) (lower model) (lower fo) = None"
    and "resolve_ion ext ion_particle Z = Inr (m_i, Z_res)"
    and "resolve_coulomb_logs ext T_e n_e T_i ion_particle ''e''
           coulomb_log_ei V_ei coulomb_log_ii V_ii = (warned, res)"
  shows "filter is_warning (fst (snd (classical_transport ext coeffs T_e n_e T_i n_i ion_particle
          Z B model fo coulomb_log_ei V_ei coulomb_log_ii V_ii hall_e hall_i mu theta)))
         = filter is_warning warned"
  using assms
  by (auto simp add: classical_transport_def Let_def
      split: option.splits sum.splits prod.splits dest: transport_loop_events)


text \<open>
  C4. In a call of \<open>classical_transport\<close> whose names are valid and whose ion is resolved,
  let the electron-ion Coulomb logarithm resolve to \<open>lei\<close> and the ion-ion one to \<open>lii\<close>
  (each supplied by the caller or computed).
  \<^item> If \<open>lei < 1\<close>, the call emits the warning for \<open>coulomb_log_ei\<close> and raises the
    PhysicsError "coulomb_log_ei is lei, less than 1"; no transport function is invoked.
  \<^item> If \<open>1 \<le> lei\<close> and \<open>lii < 1\<close>, the call emits the warning for \<open>coulomb_log_ei\<close> when
    \<open>lei < 4\<close>, then the warning for \<open>coulomb_log_ii\<close>, and raises the PhysicsError for
    \<open>coulomb_log_ii\<close>; no transport function is invoked.
  \<^item> If both are at least 1, the warnings of the call are exactly those for the logarithms
    below 4, and the call goes on: its result is the one that the Hall parameters, the
    ratios of the Ji-Held model and the loop over the transport functions produce, with
    \<open>lei\<close> and \<open>lii\<close> as the logarithms used and returned. An exception that ends such a
    call is raised by one of these later steps, not by the validity check.
\<close>

theorem coulomb_log_validity:
  fixes ext :: env and coeffs :: "string list" and T_e n_e T_i n_i B :: real
    and ion_particle model fo :: string and Z :: "zval option"
    and coulomb_log_ei V_ei coulomb_log_ii V_ii hall_e hall_i mu theta :: "real option"
  defines "ct \<equiv> classical_transport ext coeffs T_e n_e T_i n_i ion_particle Z B model fo
          coulomb_log_ei V_ei coulomb_log_ii V_ii hall_e hall_i mu theta"
  defines "resolved_ii \<equiv> (case coulomb_log_ii of
              Some v \<Rightarrow> Inr v
            | None \<Rightarrow> Coulomb_logarithm ext T_i n_e [ion_particle, ion_particle] V_ii)"
  assumes valid: "validate_names (map lower coeffs) (lower model) (lower fo) = None"
    and ion: "resolve_ion ext ion_particle Z = Inr (m_i, Z_res)"
    and ei: "(case coulomb_log_ei of
              Some v \<Rightarrow> Inr v
            | None \<Rightarrow> Coulomb_logarithm ext T_e n_e [''e'', ion_particle] V_ei) = Inr lei"
  shows "(lei < 1 \<longrightarrow>
            ct = (map lower coeffs, [Strong_coupling ''coulomb_log_ei'' lei],
                  Inl (Coulomb_log_below_1 ''coulomb_log_ei'' lei)))
     \<and> (1 \<le> lei \<and> resolved_ii = Inr lii \<and> lii < 1 \<longrightarrow>
            ct = (map lower coeffs,
                  (if lei < 4 then [Strong_coupling ''coulomb_log_ei'' lei] else [])
                    @ [Strong_coupling ''coulomb_log_ii'' lii],
                  Inl (Coulomb_log_below_1 ''coulomb_log_ii'' lii)))
     \<and> (1 \<le> lei \<and> resolved_ii = Inr lii \<and> 1 \<le> lii \<longrightarrow>
            filter is_warning (fst (snd ct))
              = (if lei < 4 then [Strong_coupling ''coulomb_log_ei'' lei] else [])
                  @ (if lii < 4 then [Strong_coupling ''coulomb_log_ii'' lii] else []))
     \<and> (1 \<le> lei \<and> resolved_ii = Inr lii \<and> 1 \<le> lii \<longrightarrow>
            ct =
              (case resolve_hall ext T_e n_e T_i n_i B ion_particle ''e'' lei V_ei lii V_ii
                      hall_e hall_i of
                 Inl err \<Rightarrow>
                   (map lower coeffs,
                    (if lei < 4 then [Strong_coupling ''coulomb_log_ei'' lei] else [])
                      @ (if lii < 4 then [Strong_coupling ''coulomb_log_ii'' lii] else []),
                    Inl err)
               | Inr (hall_e_res, hall_i_res) \<Rightarrow>
                   (case resolve_mu_theta ext (lower model) m_i T_e T_i mu theta of
                      Inl err \<Rightarrow>
                        (map lower coeffs,
                         (if lei < 4 then [Strong_coupling ''coulomb_log_ei'' lei] else [])
                           @ (if lii < 4 then [Strong_coupling ''coulomb_log_ii'' lii] else []),
                         Inl err)
                    | Inr (mu_res, theta_res) \<Rightarrow>
                        (case transport_loop
                                (call_transport_func ext T_e n_e T_i n_i ion_particle ''e'' Z_res
                                   B (lower model) (lower fo) lei V_ei lii V_ii
                                   hall_e_res hall_i_res mu_res theta_res)
                                (map lower coeffs) of
                           (invoked, Inl err) \<Rightarrow>
                             (map lower coeffs,
                              ((if lei < 4 then [Strong_coupling ''coulomb_log_ei'' lei] else [])
                                 @ (if lii < 4 then [Strong_coupling ''coulomb_log_ii'' lii]
                                    else [])) @ invoked,
                              Inl err)
                         | (invoked, Inr transport_coeffs) \<Rightarrow>
                             (map lower coeffs,
                              ((if lei < 4 then [Strong_coupling ''coulomb_log_ei'' lei] else [])
                                 @ (if lii < 4 then [Strong_coupling ''coulomb_log_ii'' lii]
                                    else [])) @ invoked,
                              Inr (transport_coeffs, hall_e_res, hall_i_res, lei, lii))))))
     \<and> class_of (Coulomb_log_below_1 name lei) = PhysicsError"
proof (intro conjI impI)
  assume "lei < 1"
  then have "resolve_coulomb_logs ext T_e n_e T_i ion_particle ''e''
           coulomb_log_ei V_ei coulomb_log_ii V_ii
      = ([Strong_coupling ''coulomb_log_ei'' lei], Inl (Coulomb_log_below_1 ''coulomb_log_ei'' lei))"
    using ei by (simp add: resolve_coulomb_logs_def)
  from classical_transport_after_logs [OF valid ion this]
  show "ct = (map lower coeffs, [Strong_coupling ''coulomb_log_ei'' lei],
                  Inl (Coulomb_log_below_1 ''coulomb_log_ei'' lei))"
    by (simp add: ct_def)
next
  assume a: "1 \<le> lei \<and> resolved_ii = Inr lii \<and> lii < 1"
  then have "resolve_coulomb_logs ext T_e n_e T_i ion_particle ''e''
           coulomb_log_ei V_ei coulomb_log_ii V_ii
      = ((if lei < 4 then [Strong_coupling ''coulomb_log_ei'' lei] else [])
           @ [Strong_coupling ''coulomb_log_ii'' lii],
         Inl (Coulomb_log_below_1 ''coulomb_log_ii'' lii))"
    using ei by (simp add: resolve_coulomb_logs_def resolved_ii_def)
  from classical_transport_after_logs [OF valid ion this]
  show "ct = (map lower coeffs,
                  (if lei < 4 then [Strong_coupling ''coulomb_log_ei'' lei] else [])
                    @ [Strong_coupling ''coulomb_log_ii'' lii],
                  Inl (Coulomb_log_below_1 ''coulomb_log_ii'' lii))"
    by (simp add: ct_def)
next
  assume a: "1 \<le> lei \<and> resolved_ii = Inr lii \<and> 1 \<le> lii"
  then have "resolve_coulomb_logs ext T_e n_e T_i ion_particle ''e''
           coulomb_log_ei V_ei coulomb_log_ii V_ii
      = ((if lei < 4 then [Strong_coupling ''coulomb_log_ei'' lei] else [])
           @ (if lii < 4 then [Strong_coupling ''coulomb_log_ii'' lii] else []),
         Inr (lei, lii))"
    using ei by (simp add: resolve_coulomb_logs_def resolved_ii_def)
  from classical_transport_warnings [OF valid ion this]
  show "filter is_warning (fst (snd ct))
              = (if lei < 4 then [Strong_coupling ''coulomb_log_ei'' lei] else [])
                  @ (if lii < 4 then [Strong_coupling ''coulomb_log_ii'' lii] else [])"
    by (simp add: ct_def)
next
  assume a: "1 \<le> lei \<and> resolved_ii = Inr lii \<and> 1 \<le> lii"
  then have "resolve_coulomb_logs ext T_e n_e T_i ion_particle ''e''
           coulomb_log_ei V_ei coulomb_log_ii V_ii
      = ((if lei < 4 then [Strong_coupling ''coulomb_log_ei'' lei] else [])
           @ (if lii < 4 then [Strong_coupling ''coulomb_log_ii'' lii] else []),
         Inr (lei, lii))"
    using ei by (simp add: resolve_coulomb_logs_def resolved_ii_def)
  from classical_transport_goes_on [OF valid ion this]
  show "ct =
              (case resolve_hall ext T_e n_e T_i n_i B ion_particle ''e'' lei V_ei lii V_ii
                      hall_e hall_i of
                 Inl err \<Rightarrow>
                   (map lower coeffs,
                    (if lei < 4 then [Strong_coupling ''coulomb_log_ei'' lei] else [])
                      @ (if lii < 4 then [Strong_coupling ''coulomb_log_ii'' lii] else []),
                    Inl err)
               | Inr (hall_e_res, hall_i_res) \<Rightarrow>
                   (case resolve_mu_theta ext (lower model) m_i T_e T_i mu theta of
                      Inl err \<Rightarrow>
                        (map lower coeffs,
                         (if lei < 4 then [Strong_coupling ''coulomb_log_ei'' lei] else [])
                           @ (if lii < 4 then [Strong_coupling ''coulomb_log_ii'' lii] else []),
                         Inl err)
                    | Inr (mu_res, theta_res) \<Rightarrow>
                        (case transport_loop
                                (call_transport_func ext T_e n_e T_i n_i ion_particle ''e'' Z_res
                                   B (lower model) (lower fo) lei V_ei lii V_ii
                                   hall_e_res hall_i_res mu_res theta_res)
                                (map lower coeffs) of
                           (invoked, Inl err) \<Rightarrow>
                             (map lower coeffs,
                              ((if lei < 4 then [Strong_coupling ''coulomb_log_ei'' lei] else [])
                                 @ (if lii < 4 then [Strong_coupling ''coulomb_log_ii'' lii]
                                    else [])) @ invoked,
                              Inl err)
                         | (invoked, Inr transport_coeffs) \<Rightarrow>
                             (map lower coeffs,
                              ((if lei < 4 then [Strong_coupling ''coulomb_log_ei'' lei] else [])
                                 @ (if lii < 4 then [Strong_coupling ''coulomb_log_ii'' lii]
                                    else [])) @ invoked,
                              Inr (transport_coeffs, hall_e_res, hall_i_res, lei, lii)))))"
    by (simp add: ct_def)
next
  show "class_of (Coulomb_log_below_1 name lei) = PhysicsError" by simp
qed

lemma lower_examples:
  "lower ''resistivity'' = ''resistivity''" "lower ''Resistivity'' = ''resistivity''"
  "lower ''thermoelectric_conductivity'' = ''thermoelectric_conductivity''"
  "lower ''braginskii'' = ''braginskii''" "lower ''Braginskii'' = ''braginskii''"
  "lower ''parallel'' = ''parallel''" "lower ''Ji-Held'' = ''ji-held''"
  "lower ''Epperlein-Haines'' = ''epperlein-haines''"
  "lower ''Chapman-Enskog'' = ''chapman-enskog''"
  by (simp_all add: lower_def lower_char_def)

lemma example_validate:
  "validate_names [''resistivity''] ''braginskii'' ''parallel'' = None"
  "validate_names [''thermoelectric_conductivity''] ''braginskii'' ''parallel'' = None"
  by (simp_all add: validate_names_def valid_coeffs_def valid_models_def valid_fields_def)

lemma example_ion: "resolve_ion example_env ''p'' None = Inr (6, ZNum 1)"
  by (simp add: resolve_ion_def example_env_def)

lemma example_hall_any:
  "resolve_hall example_env 2 1 1 2 0 ''p'' ''e'' lei None lii None None None = Inr (0, 0)"
  by (simp add: resolve_hall_def example_env_def)

lemma example_mu_theta_braginskii:
  "resolve_mu_theta example_env ''braginskii'' m_i 2 1 None None = Inr (None, None)"
  by (simp add: resolve_mu_theta_def)

lemma example_resistivity_any:
  "call_transport_func example_env 2 1 1 2 ''p'' ''e'' (ZNum 1) 0 ''braginskii'' ''parallel''
     lei None lii None 0 0 None None ''resistivity''
   = Inr (Scalar (1 - 1.837 / 3.7703))"
  by (simp add: call_transport_func_def resistivity_def nondim_resisitivity_def
      nondim_resist_braginskii_def check_Z_def braginskii_allowed_Z_def
      resist_delta_0_def resist_delta_1_def resist_alpha_0_prime_def collision_time_def
      py_div_def example_env_def)

theorem coulomb_log_validity_witness:
  "classical_transport example_env [''resistivity''] 2 1 1 2 ''p'' None 0 ''braginskii''
     ''parallel'' (Some (1 / 2)) None (Some 10) None None None None None
     = ([''resistivity''], [Strong_coupling ''coulomb_log_ei'' (1 / 2)],
        Inl (Coulomb_log_below_1 ''coulomb_log_ei'' (1 / 2)))
   \<and> classical_transport example_env [''resistivity''] 2 1 1 2 ''p'' None 0 ''braginskii''
     ''parallel'' (Some 2) None (Some (1 / 2)) None None None None None
     = ([''resistivity''],
        [Strong_coupling ''coulomb_log_ei'' 2, Strong_coupling ''coulomb_log_ii'' (1 / 2)],
        Inl (Coulomb_log_below_1 ''coulomb_log_ii'' (1 / 2)))
   \<and> filter is_warning (fst (snd (classical_transport example_env [''resistivity''] 2 1 1 2 ''p''
       None 0 ''braginskii'' ''parallel'' (Some 2) None (Some 10) None None None None None)))
     = [Strong_coupling ''coulomb_log_ei'' 2]
   \<and> classical_transport example_env [''resistivity''] 2 1 1 2 ''p'' None 0 ''braginskii''
     ''parallel'' (Some 2) None (Some 3) None None None None None
     = ([''resistivity''],
        [Strong_coupling ''coulomb_log_ei'' 2, Strong_coupling ''coulomb_log_ii'' 3,
         Invoked ''resistivity''],
        Inr ([Scalar (1 - 1.837 / 3.7703)], 0, 0, 2, 3))"
proof -
  have v': "validate_names (map lower [''resistivity'']) (lower ''braginskii'') (lower ''parallel'')
      = None"
    by (simp add: lower_examples example_validate)
  from coulomb_log_validity [where ext = example_env and coeffs = "[''resistivity'']"
      and model = "''braginskii''" and fo = "''parallel''" and ion_particle = "''p''"
      and Z = None and coulomb_log_ei = "Some (1 / 2)" and lei = "1 / 2"
      and coulomb_log_ii = "Some 10" and T_e = 2 and n_e = 1 and T_i = 1 and n_i = 2 and B = 0
      and V_ei = None and V_ii = None and hall_e = None and hall_i = None and mu = None
      and theta = None, OF v' example_ion]
  have a: "classical_transport example_env [''resistivity''] 2 1 1 2 ''p'' None 0 ''braginskii''
     ''parallel'' (Some (1 / 2)) None (Some 10) None None None None None
     = ([''resistivity''], [Strong_coupling ''coulomb_log_ei'' (1 / 2)],
        Inl (Coulomb_log_below_1 ''coulomb_log_ei'' (1 / 2)))"
    by (simp add: lower_examples)
  from coulomb_log_validity [where ext = example_env and coeffs = "[''resistivity'']"
      and model = "''braginskii''" and fo = "''parallel''" and ion_particle = "''p''"
      and Z = None and coulomb_log_ei = "Some 2" and lei = 2
      and coulomb_log_ii = "Some (1 / 2)" and lii = "1 / 2"
      and T_e = 2 and n_e = 1 and T_i = 1 and n_i = 2 and B = 0
      and V_ei = None and V_ii = None and hall_e = None and hall_i = None and mu = None
      and theta = None, OF v' example_ion]
  have b: "classical_transport example_env [''resistivity''] 2 1 1 2 ''p'' None 0 ''braginskii''
     ''parallel'' (Some 2) None (Some (1 / 2)) None None None None None
     = ([''resistivity''],
        [Strong_coupling ''coulomb_log_ei'' 2, Strong_coupling ''coulomb_log_ii'' (1 / 2)],
        Inl (Coulomb_log_below_1 ''coulomb_log_ii'' (1 / 2)))"
    by (simp add: lower_examples)
  from coulomb_log_validity [where ext = example_env and coeffs = "[''resistivity'']"
      and model = "''braginskii''" and fo = "''parallel''" and ion_particle = "''p''"
      and Z = None and coulomb_log_ei = "Some 2" and lei = 2
      and coulomb_log_ii = "Some 10" and lii = 10
      and T_e = 2 and n_e = 1 and T_i = 1 and n_i = 2 and B = 0
      and V_ei = None and V_ii = None and hall_e = None and hall_i = None and mu = None
      and theta = None, OF v' example_ion]
  have c: "filter is_warning (fst (snd (classical_transport example_env [''resistivity''] 2 1 1 2
       ''p'' None 0 ''braginskii'' ''parallel'' (Some 2) None (Some 10) None None None None None)))
     = [Strong_coupling ''coulomb_log_ei'' 2]"
    by (simp add: lower_examples example_hall_any example_mu_theta_braginskii
        example_resistivity_any)
  from coulomb_log_validity [where ext = example_env and coeffs = "[''resistivity'']"
      and model = "''braginskii''" and fo = "''parallel''" and ion_particle = "''p''"
      and Z = None and coulomb_log_ei = "Some 2" and lei = 2
      and coulomb_log_ii = "Some 3" and lii = 3
      and T_e = 2 and n_e = 1 and T_i = 1 and n_i = 2 and B = 0
      and V_ei = None and V_ii = None and hall_e = None and hall_i = None and mu = None
      and theta = None, OF v' example_ion]
  have d: "classical_transport example_env [''resistivity''] 2 1 1 2 ''p'' None 0 ''braginskii''
     ''parallel'' (Some 2) None (Some 3) None None None None None
     = ([''resistivity''],
        [Strong_coupling ''coulomb_log_ei'' 2, Strong_coupling ''coulomb_log_ii'' 3,
         Invoked ''resistivity''],
        Inr ([Scalar (1 - 1.837 / 3.7703)], 0, 0, 2, 3))"
    by (simp add: lower_examples example_hall_any example_mu_theta_braginskii
        example_resistivity_any)
  from a b c d show ?thesis by blast
qed


lemma resolve_coulomb_logs_ii:
  "resolve_coulomb_logs ext T_e n_e T_i ion_particle e_particle coulomb_log_ei V_ei None V_ii
     = (warned, Inr (lei, lii))
   \<Longrightarrow> Coulomb_logarithm ext T_i n_e [ion_particle, ion_particle] V_ii = Inr lii"
  by (auto simp add: resolve_coulomb_logs_def Let_def split: sum.splits if_splits)

lemma resolve_coulomb_logs_ii_error:
  "(case coulomb_log_ei of
      Some v \<Rightarrow> Inr v
    | None \<Rightarrow> Coulomb_logarithm ext T_e n_e [e_particle, ion_particle] V_ei) = Inr lei
   \<Longrightarrow> 1 \<le> lei
   \<Longrightarrow> Coulomb_logarithm ext T_i n_e [ion_particle, ion_particle] V_ii = Inl err
   \<Longrightarrow> snd (resolve_coulomb_logs ext T_e n_e T_i ion_particle e_particle coulomb_log_ei V_ei
            None V_ii) = Inl err"
  by (simp add: resolve_coulomb_logs_def Let_def)

lemma classical_transport_returns:
  "classical_transport ext coeffs T_e n_e T_i n_i ion_particle Z B model fo
          coulomb_log_ei V_ei coulomb_log_ii V_ii hall_e hall_i mu theta
     = (cs, events, Inr (transport_coeffs, he, hi, lei, lii))
   \<Longrightarrow> \<exists>warned. resolve_coulomb_logs ext T_e n_e T_i ion_particle ''e''
           coulomb_log_ei V_ei coulomb_log_ii V_ii = (warned, Inr (lei, lii))"
  by (auto simp add: classical_transport_def Let_def
      split: option.splits sum.splits prod.splits)

text \<open>
  C10. When the caller supplies no \<open>coulomb_log_ii\<close>: the ion-ion Coulomb logarithm that
  \<open>classical_transport\<close> returns is the result of \<open>Coulomb_logarithm\<close> called with the ion
  temperature \<open>T_i\<close>, the electron density \<open>n_e\<close> (the ion density \<open>n_i\<close> does not occur), the
  pair \<open>(ion_particle, ion_particle)\<close> and \<open>V_ii\<close>; and when that call raises (after valid
  names, a resolved ion and an electron-ion logarithm of at least 1), \<open>classical_transport\<close>
  raises the same exception.
\<close>

theorem coulomb_log_ii_computed:
  fixes ext :: env and coeffs :: "string list" and T_e n_e T_i n_i B :: real
    and ion_particle model fo :: string and Z :: "zval option"
    and coulomb_log_ei V_ei V_ii hall_e hall_i mu theta :: "real option"
  defines "ct \<equiv> classical_transport ext coeffs T_e n_e T_i n_i ion_particle Z B model fo
          coulomb_log_ei V_ei None V_ii hall_e hall_i mu theta"
  shows "(ct = (cs, events, Inr (transport_coeffs, he, hi, lei, lii)) \<longrightarrow>
            Coulomb_logarithm ext T_i n_e [ion_particle, ion_particle] V_ii = Inr lii)
     \<and> (validate_names (map lower coeffs) (lower model) (lower fo) = None
        \<and> resolve_ion ext ion_particle Z = Inr (m_i, Z_res)
        \<and> (case coulomb_log_ei of
              Some v \<Rightarrow> Inr v
            | None \<Rightarrow> Coulomb_logarithm ext T_e n_e [''e'', ion_particle] V_ei) = Inr lei'
        \<and> 1 \<le> lei'
        \<and> Coulomb_logarithm ext T_i n_e [ion_particle, ion_particle] V_ii = Inl err \<longrightarrow>
            snd (snd ct) = Inl err)"
proof (intro conjI impI)
  assume "ct = (cs, events, Inr (transport_coeffs, he, hi, lei, lii))"
  from classical_transport_returns [OF this [unfolded ct_def]]
  obtain warned where "resolve_coulomb_logs ext T_e n_e T_i ion_particle ''e''
           coulomb_log_ei V_ei None V_ii = (warned, Inr (lei, lii))"
    by blast
  then show "Coulomb_logarithm ext T_i n_e [ion_particle, ion_particle] V_ii = Inr lii"
    by (rule resolve_coulomb_logs_ii)
next
  assume a: "validate_names (map lower coeffs) (lower model) (lower fo) = None
        \<and> resolve_ion ext ion_particle Z = Inr (m_i, Z_res)
        \<and> (case coulomb_log_ei of
              Some v \<Rightarrow> Inr v
            | None \<Rightarrow> Coulomb_logarithm ext T_e n_e [''e'', ion_particle] V_ei) = Inr lei'
        \<and> 1 \<le> lei'
        \<and> Coulomb_logarithm ext T_i n_e [ion_particle, ion_particle] V_ii = Inl err"
  then have "snd (resolve_coulomb_logs ext T_e n_e T_i ion_particle ''e'' coulomb_log_ei V_ei
            None V_ii) = Inl err"
    by (intro resolve_coulomb_logs_ii_error [where lei = lei']) simp_all
  then obtain warned where "resolve_coulomb_logs ext T_e n_e T_i ion_particle ''e''
      coulomb_log_ei V_ei None V_ii = (warned, Inl err)"
    by (cases "resolve_coulomb_logs ext T_e n_e T_i ion_particle ''e'' coulomb_log_ei V_ei
            None V_ii") simp
  with a classical_transport_after_logs [of coeffs model fo ext ion_particle Z m_i Z_res
      T_e n_e T_i coulomb_log_ei V_ei None V_ii warned err]
  show "snd (snd ct) = Inl err"
    by (simp add: ct_def)
qed

lemma inv_12_pi: "\<not> 1 < 1 / (12 * pi)"
proof -
  have "2 \<le> pi" by (rule pi_ge_two)
  then have "1 \<le> 12 * pi" by simp
  then have "1 / (12 * pi) \<le> 1" by simp
  then show ?thesis by simp
qed

lemma example_Coulomb_logarithm:
  "Coulomb_logarithm example_env 1 1 [''p'', ''p''] None = Inr 10"
  using inv_12_pi
  by (simp add: Coulomb_logarithm_def example_env_def py_div_def Let_def)

lemma example_Coulomb_logarithm_n_i:
  "Coulomb_logarithm example_env 1 2 [''p'', ''p''] None = Inr (10 - ln 2)"
  using inv_12_pi
  by (simp add: Coulomb_logarithm_def example_env_def py_div_def Let_def ln_div)

lemma example_logs:
  "resolve_coulomb_logs example_env 2 1 1 ''p'' ''e'' (Some 10) None None None
     = ([], Inr (10, 10))"
  "resolve_coulomb_logs example_env 2 1 1 ''p'' ''e'' (Some 10) None (Some 10) None
     = ([], Inr (10, 10))"
  by (simp_all add: resolve_coulomb_logs_def example_Coulomb_logarithm)

lemma example_hall:
  "resolve_hall example_env 2 1 1 2 0 ''p'' ''e'' 10 None 10 None None None = Inr (0, 0)"
  by (simp add: resolve_hall_def example_env_def)

lemma example_mu_theta:
  "resolve_mu_theta example_env ''braginskii'' 6 2 1 None None = Inr (None, None)"
  by (simp add: resolve_mu_theta_def)

lemma example_tec:
  "call_transport_func example_env 2 1 1 2 ''p'' ''e'' (ZNum 1) 0 ''braginskii'' ''parallel''
     10 None 10 None 0 0 None None ''thermoelectric_conductivity''
   = Inr (Scalar (2.681 / 3.7703))"
  by (simp add: call_transport_func_def thermoelectric_conductivity_def
      nondim_te_conductivity_def nondim_tec_braginskii_def check_Z_def braginskii_allowed_Z_def
      tec_delta_0_def tec_delta_1_def tec_beta_0_prime_def)


lemma example_run:
  "classical_transport example_env [''thermoelectric_conductivity''] 2 1 1 2 ''p'' None 0
     ''braginskii'' ''parallel'' (Some 10) None None None None None None None
   = ([''thermoelectric_conductivity''], [Invoked ''thermoelectric_conductivity''],
      Inr ([Scalar (2.681 / 3.7703)], 0, 0, 10, 10))"
  by (simp add: classical_transport_def Let_def lower_examples example_validate example_ion
      example_logs example_hall example_mu_theta example_tec)

theorem coulomb_log_ii_computed_witness:
  "classical_transport example_env [''thermoelectric_conductivity''] 2 1 1 2 ''p'' None 0
     ''braginskii'' ''parallel'' (Some 10) None None None None None None None
   = ([''thermoelectric_conductivity''], [Invoked ''thermoelectric_conductivity''],
      Inr ([Scalar (2.681 / 3.7703)], 0, 0, 10, 10))
   \<and> Coulomb_logarithm example_env 1 1 [''p'', ''p''] None = Inr 10
   \<and> Coulomb_logarithm example_env 1 2 [''p'', ''p''] None = Inr (10 - ln 2)"
  using coulomb_log_ii_computed [where ext = example_env
      and coeffs = "[''thermoelectric_conductivity'']" and T_e = 2 and n_e = 1 and T_i = 1
      and n_i = 2 and ion_particle = "''p''" and Z = None and B = 0 and model = "''braginskii''"
      and fo = "''parallel''" and coulomb_log_ei = "Some 10" and V_ei = None and V_ii = None
      and hall_e = None and hall_i = None and mu = None and theta = None
      and cs = "[''thermoelectric_conductivity'']"
      and events = "[Invoked ''thermoelectric_conductivity'']"
      and transport_coeffs = "[Scalar (2.681 / 3.7703)]" and he = 0 and hi = 0 and lei = 10
      and lii = 10]
    example_run example_Coulomb_logarithm_n_i
  by simp


text \<open>
  C8, as stated, fails: the model name \<open>Epperlein-Haines\<close> is not accepted by the validation;
  the call raises the PhysicsError "Unknown transport model 'epperlein-haines'".
\<close>

theorem model_name_counterexample:
  "classical_transport example_env [''resistivity''] 2 1 1 2 ''p'' None 0 ''Epperlein-Haines''
     ''parallel'' (Some 10) None (Some 10) None None None None None
   = ([''resistivity''], [], Inl (Unknown_model ''epperlein-haines''))"
  by (simp add: classical_transport_def Let_def lower_examples validate_names_def
      valid_coeffs_def valid_models_def)

lemma find_valid_coeffs:
  "set (map lower coeffs) \<subseteq> set valid_coeffs
   \<Longrightarrow> find (\<lambda>coeff. coeff \<notin> set valid_coeffs) (map lower coeffs) = None"
  by (auto simp add: find_None_iff)

text \<open>
  C8, amended. The lower-case model name is validated against the four strings
  \<open>braginskii\<close>, \<open>spitzer\<close>, \<open>spitzer-harm\<close> and \<open>ji-held\<close> (two spellings of Spitzer-Harm;
  Epperlein-Haines is not among them). When the coefficient names are valid and the model
  name is not one of the four, \<open>classical_transport\<close> raises the PhysicsError
  \<open>Unknown_model\<close> with no event before it (no warning, no transport function invoked),
  whatever the other arguments and the environment are; when it is one of the four, the
  validation goes on to the field orientation.
\<close>

theorem model_name_validation:
  fixes ext :: env and coeffs :: "string list" and T_e n_e T_i n_i B :: real
    and ion_particle model fo :: string and Z :: "zval option"
    and coulomb_log_ei V_ei coulomb_log_ii V_ii hall_e hall_i mu theta :: "real option"
  assumes coeffs: "set (map lower coeffs) \<subseteq> set valid_coeffs"
  shows "(lower model \<notin> set valid_models \<longrightarrow>
            classical_transport ext coeffs T_e n_e T_i n_i ion_particle Z B model fo
              coulomb_log_ei V_ei coulomb_log_ii V_ii hall_e hall_i mu theta
            = (map lower coeffs, [], Inl (Unknown_model (lower model))))
     \<and> (lower model \<in> set valid_models \<longrightarrow>
            validate_names (map lower coeffs) (lower model) (lower fo)
            = (if lower fo \<in> set valid_fields then None else Some (Unknown_field (lower fo))))
     \<and> set valid_models = {''braginskii'', ''spitzer'', ''spitzer-harm'', ''ji-held''}
     \<and> length valid_models = 4
     \<and> lower ''Epperlein-Haines'' \<notin> set valid_models
     \<and> class_of (Unknown_model (lower model)) = PhysicsError"
proof (intro conjI impI)
  assume "lower model \<notin> set valid_models"
  then show "classical_transport ext coeffs T_e n_e T_i n_i ion_particle Z B model fo
              coulomb_log_ei V_ei coulomb_log_ii V_ii hall_e hall_i mu theta
            = (map lower coeffs, [], Inl (Unknown_model (lower model)))"
    by (simp add: classical_transport_def Let_def validate_names_def
        find_valid_coeffs [OF coeffs])
next
  assume "lower model \<in> set valid_models"
  then show "validate_names (map lower coeffs) (lower model) (lower fo)
            = (if lower fo \<in> set valid_fields then None else Some (Unknown_field (lower fo)))"
    by (simp add: validate_names_def find_valid_coeffs [OF coeffs])
next
  show "set valid_models = {''braginskii'', ''spitzer'', ''spitzer-harm'', ''ji-held''}"
    by (simp add: valid_models_def)
  show "length valid_models = 4" by (simp add: valid_models_def)
  show "lower ''Epperlein-Haines'' \<notin> set valid_models"
    by (simp add: lower_examples valid_models_def)
  show "class_of (Unknown_model (lower model)) = PhysicsError" by simp
qed

theorem model_name_validation_witness:
  "classical_transport example_env [''Resistivity''] 2 1 1 2 ''p'' None 0 ''Chapman-Enskog''
     ''parallel'' (Some 10) None (Some 10) None None None None None
   = ([''resistivity''], [], Inl (Unknown_model ''chapman-enskog''))
   \<and> validate_names [''resistivity''] ''ji-held'' ''parallel'' = None"
proof -
  have c: "set (map lower [''Resistivity'']) \<subseteq> set valid_coeffs"
    by (simp add: lower_examples valid_coeffs_def)
  have m: "lower ''Chapman-Enskog'' \<notin> set valid_models" "lower ''Ji-Held'' \<in> set valid_models"
    "lower ''parallel'' \<in> set valid_fields"
    by (simp_all add: lower_examples valid_models_def valid_fields_def)
  from model_name_validation [OF c, where model = "''Chapman-Enskog''" and ext = example_env
      and T_e = 2 and n_e = 1 and T_i = 1 and n_i = 2 and ion_particle = "''p''" and Z = None
      and B = 0 and fo = "''parallel''" and coulomb_log_ei = "Some 10" and V_ei = None
      and coulomb_log_ii = "Some 10" and V_ii = None and hall_e = None and hall_i = None
      and mu = None and theta = None] m
  have a: "classical_transport example_env [''Resistivity''] 2 1 1 2 ''p'' None 0
     ''Chapman-Enskog'' ''parallel'' (Some 10) None (Some 10) None None None None None
   = ([''resistivity''], [], Inl (Unknown_model ''chapman-enskog''))"
    by (simp add: lower_examples)
  from model_name_validation [OF c, where model = "''Ji-Held''" and fo = "''parallel''"] m
  have b: "validate_names [''resistivity''] ''ji-held'' ''parallel'' = None"
    by (simp add: lower_examples)
  from a b show ?thesis by blast
qed




end
